theory Spec2Isabelle
  imports Complex_Main
begin

section \<open>JavaScript values and strings\<close>

text \<open>
  The program is TypeScript. Strings are modelled as \<^typ>\<open>string\<close>; the three
  non-ASCII characters that occur in the literals of \<^verbatim>\<open>VoiceApi.ts\<close> are written as
  their UTF-8 bytes, as they stand in the source file. Values of type \<^verbatim>\<open>unknown\<close>
  (the entries of a request context) are modelled by the scalar values the controller
  can place there: \<^verbatim>\<open>undefined\<close>, \<^verbatim>\<open>null\<close>, booleans and strings.
\<close>

datatype jsval = JUndefined | JNull | JBool bool | JStr string

text \<open>JavaScript truthiness, as used by \<^verbatim>\<open>if (input.context?.selectedTime)\<close>.\<close>

fun truthy :: "jsval \<Rightarrow> bool" where
  "truthy JUndefined = False"
| "truthy JNull = False"
| "truthy (JBool b) = b"
| "truthy (JStr s) = (s \<noteq> [])"

text \<open>String conversion, as performed by a template literal \<^verbatim>\<open>`${v}`\<close>.\<close>

fun toStr :: "jsval \<Rightarrow> string" where
  "toStr JUndefined = ''undefined''"
| "toStr JNull = ''null''"
| "toStr (JBool b) = (if b then ''true'' else ''false'')"
| "toStr (JStr s) = s"

definition em_dash :: string where
  "em_dash = [CHR 0xE2, CHR 0x80, CHR 0x94]"

definition right_quote :: string where
  "right_quote = [CHR 0xE2, CHR 0x80, CHR 0x99]"


section \<open>The recognition gateway (\<^verbatim>\<open>src/services/VoiceApi.ts\<close>)\<close>

record ProcessVoiceInput =
  audioUri :: string
  mimeType :: string
  clientTs :: string
  inputContext :: "(string \<rightharpoonup> jsval) option"

datatype ProcessVoiceResult = ok string | clarification string

datatype ErrorCode = NETWORK | SERVER

record ProcessVoiceError =
  code :: ErrorCode
  message :: string

datatype Scenario = success | clarify | networkError | serverError

record VoiceApiImpl =
  scenario :: Scenario
  delayMs :: nat
  completeNextAsSuccess :: bool
  liveActive :: bool

text \<open>
  The constructor: the field initialisers, then \<^verbatim>\<open>opts?.delayMs ?? 1000\<close> and
  \<^verbatim>\<open>if (opts?.scenario) this.scenario = opts.scenario\<close>.
\<close>

definition new_VoiceApiImpl :: "nat option \<Rightarrow> Scenario option \<Rightarrow> VoiceApiImpl" where
  "new_VoiceApiImpl optDelay optScenario =
     \<lparr> scenario = (case optScenario of None \<Rightarrow> success | Some s \<Rightarrow> s),
       delayMs = (case optDelay of None \<Rightarrow> 1000 | Some d \<Rightarrow> d),
       completeNextAsSuccess = False,
       liveActive = False \<rparr>"

definition voiceApi :: VoiceApiImpl where
  "voiceApi = new_VoiceApiImpl None None"

definition setScenario :: "VoiceApiImpl \<Rightarrow> Scenario \<Rightarrow> VoiceApiImpl" where
  "setScenario g s = g\<lparr> scenario := s, completeNextAsSuccess := False \<rparr>"

definition isAvailable :: "VoiceApiImpl \<Rightarrow> bool" where
  "isAvailable g = True"

definition startLiveRecognition :: "VoiceApiImpl \<Rightarrow> VoiceApiImpl" where
  "startLiveRecognition g = g\<lparr> liveActive := True \<rparr>"

definition destroy :: "VoiceApiImpl \<Rightarrow> VoiceApiImpl" where
  "destroy g = g\<lparr> liveActive := False \<rparr>"

text \<open>
  \<^verbatim>\<open>Math.random()\<close> is an input of the model: a draw \<open>r\<close> with \<open>0 \<le> r < 1\<close>.
  \<open>pick xs r\<close> is \<^verbatim>\<open>xs[Math.floor(r * xs.length)]\<close>; for such a draw the index
  is in range.
\<close>

definition pick :: "'a list \<Rightarrow> real \<Rightarrow> 'a" where
  "pick xs r = xs ! nat \<lfloor>r * real (length xs)\<rfloor>"

definition LIVE_TRANSCRIPTS :: "string list" where
  "LIVE_TRANSCRIPTS =
     [''Hey, remind me to call Alex tomorrow at 3 PM.'',
      ''Set an alarm for 7 AM tomorrow morning.'',
      ''What is the weather like this weekend?'',
      ''Add milk and eggs to my shopping list.'',
      ''Play some relaxing music from my favorites playlist.'',
      ''What time should I set it for?'']"

text \<open>\<^verbatim>\<open>stopLiveRecognition\<close>: clears the flag, waits, returns a random phrase.\<close>

definition stopLiveRecognition :: "VoiceApiImpl \<Rightarrow> real \<Rightarrow> string \<times> VoiceApiImpl" where
  "stopLiveRecognition g r = (pick LIVE_TRANSCRIPTS r, g\<lparr> liveActive := False \<rparr>)"

definition MOCK_TRANSCRIPTS :: "string list" where
  "MOCK_TRANSCRIPTS =
     [''Hey, remind me to call Alex tomorrow at 3 PM.'',
      ''Set an alarm for 7 AM tomorrow morning.'',
      ''What is the weather like this weekend?'',
      ''Add milk and eggs to my shopping list.'',
      ''Play some relaxing music from my favorites playlist.'',
      ''Send a message to John saying I'' @ right_quote @ ''ll be late.'',
      ''Turn off the living room lights.'',
      ''Open my notes for today'' @ right_quote @ ''s meeting.'']"

definition PROMPTS :: "string list" where
  "PROMPTS =
     [''Can you repeat that?'',
      ''What exactly do you mean?'',
      ''Should I save that reminder?'',
      ''Do you want me to schedule it now?'']"

definition FOLLOW_UP_TRANSCRIPT :: string where
  "FOLLOW_UP_TRANSCRIPT = ''Okay '' @ em_dash @ '' got it (follow-up).''"

text \<open>\<^verbatim>\<open>input.context?.selectedTime\<close>: a missing context or key reads as \<^verbatim>\<open>undefined\<close>.\<close>

definition selectedTime :: "ProcessVoiceInput \<Rightarrow> jsval" where
  "selectedTime input =
     (case inputContext input of
        None \<Rightarrow> JUndefined
      | Some m \<Rightarrow> (case m ''selectedTime'' of None \<Rightarrow> JUndefined | Some v \<Rightarrow> v))"

text \<open>The three draws \<^verbatim>\<open>processVoice\<close> may take, in the order it takes them.\<close>

record RandomDraws =
  drawTranscript :: real
  drawChance :: real
  drawPrompt :: real

text \<open>
  \<^verbatim>\<open>processVoice\<close> is an \<^verbatim>\<open>async\<close> function with one suspension point, the simulated
  API delay. \<open>processVoice_sync\<close> is the part that runs before it: the follow-up
  short-circuit and the \<^verbatim>\<open>switch\<close> on the scenario. It yields \<open>Some\<close> of the settled
  outcome (\<open>Inl\<close> a thrown error, \<open>Inr\<close> a returned result), or \<open>None\<close> when the call
  reaches the delay. \<open>processVoice_resume\<close> is the part that runs after the delay, on the
  state the gateway has by then. \<open>processVoice\<close> is a call that nothing interleaves with.
\<close>

definition processVoice_sync ::
  "VoiceApiImpl \<Rightarrow> ProcessVoiceInput \<Rightarrow>
     (ProcessVoiceError + ProcessVoiceResult) option \<times> VoiceApiImpl" where
  "processVoice_sync g input =
     (if completeNextAsSuccess g
      then (Some (Inr (ok FOLLOW_UP_TRANSCRIPT)), g\<lparr> completeNextAsSuccess := False \<rparr>)
      else (case scenario g of
          clarify \<Rightarrow>
            if truthy (selectedTime input)
            then (Some (Inr (ok (''Alarm set for '' @ toStr (selectedTime input) @ ''.''))), g)
            else (Some (Inr (clarification ''What time should I set it for?'')),
                  g\<lparr> completeNextAsSuccess := True \<rparr>)
        | networkError \<Rightarrow>
            (Some (Inl \<lparr> code = NETWORK, message = ''Network error. Please try again.'' \<rparr>), g)
        | serverError \<Rightarrow>
            (Some (Inl \<lparr> code = SERVER, message = ''Something went wrong. Please try again.'' \<rparr>), g)
        | success \<Rightarrow> (None, g)))"

definition processVoice_resume ::
  "VoiceApiImpl \<Rightarrow> ProcessVoiceInput \<Rightarrow> RandomDraws \<Rightarrow>
     (ProcessVoiceError + ProcessVoiceResult) \<times> VoiceApiImpl" where
  "processVoice_resume g input r =
     (if audioUri input = [] then (Inr (ok []), g)
      else let transcript = pick MOCK_TRANSCRIPTS (drawTranscript r) in
        if drawChance r < 0.1
        then (Inr (clarification (pick PROMPTS (drawPrompt r))),
              g\<lparr> completeNextAsSuccess := True \<rparr>)
        else (Inr (ok transcript), g))"

definition processVoice ::
  "VoiceApiImpl \<Rightarrow> ProcessVoiceInput \<Rightarrow> RandomDraws \<Rightarrow>
     (ProcessVoiceError + ProcessVoiceResult) \<times> VoiceApiImpl" where
  "processVoice g input r =
     (case processVoice_sync g input of
        (Some res, g') \<Rightarrow> (res, g')
      | (None, g') \<Rightarrow> processVoice_resume g' input r)"

text \<open>The request context "has a \<^verbatim>\<open>selectedTime\<close>" when the key is present.\<close>

definition hasSelectedTime :: "ProcessVoiceInput \<Rightarrow> bool" where
  "hasSelectedTime input =
     (case inputContext input of None \<Rightarrow> False | Some m \<Rightarrow> m ''selectedTime'' \<noteq> None)"

subsection \<open>Sequences of calls\<close>

text \<open>
  Calls that run to completion one after the other: the states the gateway reaches from
  its constructor when no call falls into the delay of a pending \<^verbatim>\<open>processVoice\<close>.
\<close>

datatype GatewayCall =
    CallSetScenario Scenario
  | CallProcessVoice ProcessVoiceInput RandomDraws
  | CallStartLive
  | CallStopLive real
  | CallDestroy

fun runCall :: "VoiceApiImpl \<Rightarrow> GatewayCall \<Rightarrow> VoiceApiImpl" where
  "runCall g (CallSetScenario s) = setScenario g s"
| "runCall g (CallProcessVoice input r) = snd (processVoice g input r)"
| "runCall g CallStartLive = startLiveRecognition g"
| "runCall g (CallStopLive r) = snd (stopLiveRecognition g r)"
| "runCall g CallDestroy = destroy g"

definition runCalls :: "VoiceApiImpl \<Rightarrow> GatewayCall list \<Rightarrow> VoiceApiImpl" where
  "runCalls g calls = foldl runCall g calls"

definition errorScenario :: "VoiceApiImpl \<Rightarrow> bool" where
  "errorScenario g = (scenario g = networkError \<or> scenario g = serverError)"

section \<open>The audio visualizer (\<^verbatim>\<open>src/components/audio-visualizer.tsx\<close>)\<close>

text \<open>
  JavaScript numbers are modelled as exact reals: the rounding and the overflow of IEEE
  doubles are not modelled. A value that is not a number (\<^verbatim>\<open>NaN\<close>, or \<^verbatim>\<open>undefined\<close>
  read from beyond the end of an array and used in arithmetic) is \<open>None\<close>; a comparison
  with it is false, as in JavaScript.
\<close>

subsection \<open>The waveform buffers\<close>

definition WAVE_POINTS :: nat where
  "WAVE_POINTS = 60"

record Buffers =
  meterBuffer :: "real list"
  frequencyBuffer :: "real list"

definition emptyBuffers :: Buffers where
  "emptyBuffers = \<lparr> meterBuffer = [], frequencyBuffer = [] \<rparr>"

text \<open>
  "Add to buffers" and "Keep only recent data": both arrays are pushed to; when
  \<^verbatim>\<open>meterBuffer\<close> has grown beyond \<^verbatim>\<open>WAVE_POINTS\<close>, both are shifted
  (\<^verbatim>\<open>shift\<close> removes the first element, and does nothing on an empty array).
\<close>

definition pushSample :: "Buffers \<Rightarrow> real \<Rightarrow> real \<Rightarrow> Buffers" where
  "pushSample b normalizedMeter frequency =
     (let m = meterBuffer b @ [normalizedMeter];
          f = frequencyBuffer b @ [frequency]
      in if length m > WAVE_POINTS
         then \<lparr> meterBuffer = tl m, frequencyBuffer = tl f \<rparr>
         else \<lparr> meterBuffer = m, frequencyBuffer = f \<rparr>)"

text \<open>
  One run of \<^verbatim>\<open>updateWaveform\<close> on the buffers. When not recording the buffers are
  reset. Otherwise the tick's sample is pushed; \<open>None\<close> is a tick whose sampling threw
  inside the \<^verbatim>\<open>try\<close> block, which is logged and pushes nothing.
\<close>

definition updateWaveform :: "bool \<Rightarrow> (real \<times> real) option \<Rightarrow> Buffers \<Rightarrow> Buffers" where
  "updateWaveform isRecording sample b =
     (if \<not> isRecording then emptyBuffers
      else (case sample of
              None \<Rightarrow> b
            | Some (normalizedMeter, frequency) \<Rightarrow> pushSample b normalizedMeter frequency))"

text \<open>The buffers after a recording's ticks, each with its sample, from the reset state.\<close>

definition recordTicks :: "(real \<times> real) list \<Rightarrow> Buffers" where
  "recordTicks samples =
     foldl (\<lambda>b s. updateWaveform True (Some s) b) (updateWaveform False None emptyBuffers) samples"

subsection \<open>The per-tick sample on native platforms\<close>

text \<open>
  What \<^verbatim>\<open>audioService.getRecordingStatus()\<close> resolves to when it is not \<^verbatim>\<open>null\<close>.
\<close>

record RecordingStatusInfo =
  infoMetering :: "real option"
  infoFrequency :: real

text \<open>
  The native branch of \<^verbatim>\<open>updateWaveform\<close>: with no status both values stay 0; otherwise
  \<^verbatim>\<open>metering\<close> defaults to -160 and
  \<^verbatim>\<open>normalizedMeter = Math.max(0, (metering + 160) / 160)\<close>.
\<close>

definition nativeSample :: "RecordingStatusInfo option \<Rightarrow> real \<times> real" where
  "nativeSample status =
     (case status of
        None \<Rightarrow> (0, 0)
      | Some st \<Rightarrow>
          (let metering = (case infoMetering st of None \<Rightarrow> -160 | Some m \<Rightarrow> m)
           in (max 0 ((metering + 160) / 160), infoFrequency st)))"

text \<open>The conversion the specification gives: \<open>(dB + 160) / 160\<close> clamped to \<open>[0, 1]\<close>.\<close>

definition clampedMeter :: "real \<Rightarrow> real" where
  "clampedMeter metering = min 1 (max 0 ((metering + 160) / 160))"

subsection \<open>The pitch estimator\<close>

definition thres :: real where
  "thres = 0.2"

text \<open>
  \<^verbatim>\<open>Math.sqrt(rms / SIZE)\<close> after the summing loop; on the empty buffer it is
  \<^verbatim>\<open>Math.sqrt(0 / 0)\<close>, not a number.
\<close>

definition rmsOf :: "real list \<Rightarrow> real option" where
  "rmsOf buffer =
     (if buffer = [] then None
      else Some (sqrt (sum_list (map (\<lambda>val. val * val) buffer) / real (length buffer))))"

text \<open>
  The two trimming loops. \<^verbatim>\<open>i < SIZE / 2\<close> on an integer \<open>i\<close> is \<open>2 * i < SIZE\<close>.
  The first starts at 0 and leaves \<open>r1 = 0\<close> when it finds nothing; the second starts at 1
  and leaves \<open>r2 = SIZE - 1\<close>, which is -1 on the empty buffer.
\<close>

function scanR1 :: "real list \<Rightarrow> nat \<Rightarrow> nat" where
  "scanR1 buffer i =
     (if 2 * i < length buffer
      then (if \<bar>buffer ! i\<bar> < thres then i else scanR1 buffer (i + 1))
      else 0)"
  by pat_completeness auto
termination
  by (relation "measure (\<lambda>(buffer, i). length buffer - i)") auto

function scanR2 :: "real list \<Rightarrow> nat \<Rightarrow> int" where
  "scanR2 buffer i =
     (if 2 * i < length buffer
      then (if \<bar>buffer ! (length buffer - i)\<bar> < thres then int (length buffer - i)
            else scanR2 buffer (i + 1))
      else int (length buffer) - 1)"
  by pat_completeness auto
termination
  by (relation "measure (\<lambda>(buffer, i). length buffer - i)") auto

text \<open>
  \<^verbatim>\<open>TypedArray.prototype.slice(start, end)\<close>: a negative index counts from the end, and
  both are clamped to the array.
\<close>

definition slice :: "'a list \<Rightarrow> int \<Rightarrow> int \<Rightarrow> 'a list" where
  "slice xs start stop =
     (let len = int (length xs);
          k = (if start < 0 then max (len + start) 0 else min start len);
          final = (if stop < 0 then max (len + stop) 0 else min stop len)
      in take (nat (final - k)) (drop (nat k) xs))"

definition trim :: "real list \<Rightarrow> real list" where
  "trim buffer = slice buffer (int (scanR1 buffer 0)) (scanR2 buffer 1)"

text \<open>The autocorrelation array \<open>c\<close>: \<open>c[i]\<close> sums \<open>buffer[j] * buffer[j + i]\<close> over \<open>j < newSize - i\<close>.\<close>

definition autocorr :: "real list \<Rightarrow> real list" where
  "autocorr buffer =
     map (\<lambda>i. sum_list (map (\<lambda>j. buffer ! j * buffer ! (j + i)) [0..<length buffer - i]))
       [0..<length buffer]"

text \<open>Reading \<open>c[i]\<close>: \<^verbatim>\<open>undefined\<close> outside the array.\<close>

definition readAt :: "real list \<Rightarrow> int \<Rightarrow> real option" where
  "readAt c i = (if 0 \<le> i \<and> i < int (length c) then Some (c ! nat i) else None)"

fun jsGreater :: "real option \<Rightarrow> real option \<Rightarrow> bool" where
  "jsGreater (Some x) (Some y) = (x > y)"
| "jsGreater _ _ = False"

text \<open>
  \<^verbatim>\<open>while (c[d] > c[d + 1]) d++\<close>. The loop has no bound of its own, so it is a partial
  function: \<open>None\<close> would be a scan that never ends.
\<close>

partial_function (option) descend :: "real list \<Rightarrow> nat \<Rightarrow> nat option" where
  "descend c d =
     (if jsGreater (readAt c (int d)) (readAt c (int d + 1)) then descend c (d + 1) else Some d)"

text \<open>The search for the greatest value from \<open>d\<close> on, starting from \<open>maxval = maxpos = -1\<close>.\<close>

definition findMax :: "real list \<Rightarrow> nat \<Rightarrow> real \<times> int" where
  "findMax c d =
     foldl (\<lambda>(maxval, maxpos) i. if c ! i > maxval then (c ! i, int i) else (maxval, maxpos))
       (-1, -1) [d..<length c]"

text \<open>
  The parabolic interpolation. \<open>x1\<close>, \<open>x2\<close>, \<open>x3\<close> are read at \<open>T0 - 1\<close>, \<open>T0\<close>, \<open>T0 + 1\<close>;
  the coefficient \<open>a\<close> is not a number when one of them is \<^verbatim>\<open>undefined\<close>, and
  \<^verbatim>\<open>if (a)\<close> holds for a number other than 0 only.
\<close>

definition coeffA :: "real list \<Rightarrow> int \<Rightarrow> real option" where
  "coeffA c T0 =
     (case (readAt c (T0 - 1), readAt c T0, readAt c (T0 + 1)) of
        (Some x1, Some x2, Some x3) \<Rightarrow> Some ((x1 + x3 - 2 * x2) / 2)
      | _ \<Rightarrow> None)"

definition coeffB :: "real list \<Rightarrow> int \<Rightarrow> real option" where
  "coeffB c T0 =
     (case (readAt c (T0 - 1), readAt c (T0 + 1)) of
        (Some x1, Some x3) \<Rightarrow> Some ((x3 - x1) / 2)
      | _ \<Rightarrow> None)"

definition interpolate :: "real list \<Rightarrow> int \<Rightarrow> real" where
  "interpolate c T0 =
     (case (coeffA c T0, coeffB c T0) of
        (Some a, Some b) \<Rightarrow> if a \<noteq> 0 then real_of_int T0 - b / (2 * a) else real_of_int T0
      | _ \<Rightarrow> real_of_int T0)"

text \<open>
  \<^verbatim>\<open>sampleRate / T0\<close> and the last guard. A division by 0 gives an infinity or
  \<^verbatim>\<open>NaN\<close>, which \<^verbatim>\<open>isFinite\<close> rejects.
\<close>

definition toFrequency :: "real \<Rightarrow> real \<Rightarrow> real option" where
  "toFrequency sampleRate T0 =
     (if T0 = 0 then None
      else let freq = sampleRate / T0
           in if freq \<le> 0 \<or> freq > 5000 then None else Some freq)"

text \<open>
  \<^verbatim>\<open>autoCorrelate\<close>. The outer \<open>option\<close> is termination: \<open>None\<close> would be a call that
  never returns. The inner one is the result: \<open>None\<close> for \<^verbatim>\<open>null\<close>, \<open>Some freq\<close> for a
  number.
\<close>

definition autoCorrelate :: "real list \<Rightarrow> real \<Rightarrow> real option option" where
  "autoCorrelate buffer sampleRate =
     (if (case rmsOf buffer of None \<Rightarrow> False | Some rms \<Rightarrow> rms < 0.01) then Some None
      else let c = autocorr (trim buffer) in
        (case descend c 0 of
           None \<Rightarrow> None
         | Some d \<Rightarrow>
             let T0 = snd (findMax c d) in
             if T0 = 0 then Some None
             else Some (toFrequency sampleRate (interpolate c T0))))"

text \<open>
  The web branch of \<^verbatim>\<open>updateWaveform\<close>: the frequency, or 0 for \<^verbatim>\<open>null\<close>, and
  \<^verbatim>\<open>Math.min(1, rms * 15)\<close>. The data array has the analyser's \<^verbatim>\<open>fftSize\<close> of 2048
  entries, so its RMS is a number; \<open>None\<close> covers the empty array and a call that does not
  return.
\<close>

definition webSample :: "real list \<Rightarrow> real \<Rightarrow> (real \<times> real) option" where
  "webSample dataArray sampleRate =
     (case autoCorrelate dataArray sampleRate of
        None \<Rightarrow> None
      | Some res \<Rightarrow>
          (case rmsOf dataArray of
             None \<Rightarrow> None
           | Some rms \<Rightarrow> Some (min 1 (rms * 15), (case res of None \<Rightarrow> 0 | Some freq \<Rightarrow> freq))))"


section \<open>The capture session (\<^verbatim>\<open>AudioService\<close>)\<close>

text \<open>
  The repository holds two versions of the class: \<^verbatim>\<open>src/services/AudioService.ts\<close>,
  whose functions carry the suffix \<open>_A\<close> here, and \<^verbatim>\<open>src/unnamed/part_003\<close>, suffix
  \<open>_B\<close>. The platform is an input of the model. A thrown JavaScript \<^verbatim>\<open>Error\<close> is a
  value \<open>Error message\<close>, and a call that may throw returns a sum, \<open>Inl\<close> the error.
\<close>

datatype exn = Error string

fun errorMessageOf :: "exn \<Rightarrow> string" where
  "errorMessageOf (Error msg) = msg"

record RecordingStatus =
  statusIsRecording :: bool
  statusDurationMillis :: "int option"
  statusDuration :: "int option"
  statusMetering :: "real option"

text \<open>
  An \<^verbatim>\<open>Audio.Recording\<close> object, by what its methods answer: \<^verbatim>\<open>getStatusAsync\<close>,
  \<^verbatim>\<open>stopAndUnloadAsync\<close>, \<^verbatim>\<open>unloadAsync\<close> (\<open>None\<close> when the object does not expose it)
  and \<^verbatim>\<open>getURI\<close> (\<open>None\<close> for \<^verbatim>\<open>null\<close>).
\<close>

record RecordingHandle =
  statusResult :: "exn + RecordingStatus"
  stopResult :: "exn + unit"
  unloadResult :: "(exn + unit) option"
  uriResult :: "string option"

text \<open>
  The artifact storage: the files with their sizes in bytes, and for each path whether the
  information query (\<^verbatim>\<open>getInfoAsync\<close>, \<^verbatim>\<open>statAsync\<close>) or the deletion rejects.
\<close>

record FileSystem =
  files :: "string \<rightharpoonup> nat"
  infoError :: "string \<Rightarrow> exn option"
  deleteError :: "string \<Rightarrow> exn option"

record FileInfo =
  infoExists :: bool
  infoSize :: "nat option"

definition getInfoAsync :: "FileSystem \<Rightarrow> string \<Rightarrow> exn + FileInfo" where
  "getInfoAsync storage path =
     (case infoError storage path of
        Some e \<Rightarrow> Inl e
      | None \<Rightarrow>
          (case files storage path of
             None \<Rightarrow> Inr \<lparr> infoExists = False, infoSize = None \<rparr>
           | Some n \<Rightarrow> Inr \<lparr> infoExists = True, infoSize = Some n \<rparr>))"

definition deleteAsync :: "FileSystem \<Rightarrow> string \<Rightarrow> exn + FileSystem" where
  "deleteAsync storage path =
     (case deleteError storage path of
        Some e \<Rightarrow> Inl e
      | None \<Rightarrow> Inr (storage\<lparr> files := (files storage)(path := None) \<rparr>))"

record AudioService =
  recording :: "RecordingHandle option"
  recordingStartTs :: "int option"

definition audioService :: AudioService where
  "audioService = \<lparr> recording = None, recordingStartTs = None \<rparr>"

definition RECORDING_MIME :: string where
  "RECORDING_MIME = ''audio/m4a''"

record StopResult =
  resultUri :: string
  resultMimeType :: string
  resultDuration :: "int option"

text \<open>
  \<^verbatim>\<open>safeStopAndUnload\<close> (the same in both versions). The status query has its own
  \<^verbatim>\<open>.catch(() => null)\<close>; whatever the stop or the unload throws is caught by the
  surrounding \<^verbatim>\<open>try\<close>.
\<close>

definition safeStopAndUnload :: "RecordingHandle option \<Rightarrow> exn + unit" where
  "safeStopAndUnload rec =
     (case rec of
        None \<Rightarrow> Inr ()
      | Some h \<Rightarrow>
          (case (if (case statusResult h of Inl e \<Rightarrow> False | Inr st \<Rightarrow> statusIsRecording st)
                 then stopResult h
                 else (case unloadResult h of None \<Rightarrow> Inr () | Some res \<Rightarrow> res)) of
             Inl e \<Rightarrow> Inr ()
           | Inr u \<Rightarrow> Inr ()))"

text \<open>"Stop/unload defensively": \<^verbatim>\<open>stopAndUnloadAsync\<close>, and on failure \<^verbatim>\<open>safeStopAndUnload\<close>.\<close>

definition stopDefensively :: "RecordingHandle \<Rightarrow> exn + unit" where
  "stopDefensively h =
     (case stopResult h of Inl e \<Rightarrow> safeStopAndUnload (Some h) | Inr u \<Rightarrow> Inr u)"

text \<open>\<^verbatim>\<open>(status && (status.durationMillis ?? status.duration)) ?? undefined\<close>, on a status that
  is \<^verbatim>\<open>{}\<close> when the query rejected.\<close>

definition reportedDuration :: "RecordingHandle \<Rightarrow> int option" where
  "reportedDuration h =
     (case statusResult h of
        Inl e \<Rightarrow> None
      | Inr st \<Rightarrow> (case statusDurationMillis st of Some d \<Rightarrow> Some d | None \<Rightarrow> statusDuration st))"

text \<open>\<^verbatim>\<open>!uri\<close> holds for \<^verbatim>\<open>null\<close> and for the empty string.\<close>

definition usableUri :: "RecordingHandle \<Rightarrow> string option" where
  "usableUri h = (case uriResult h of None \<Rightarrow> None | Some u \<Rightarrow> if u = [] then None else Some u)"

text \<open>
  \<^verbatim>\<open>stopRecording\<close> of \<^verbatim>\<open>src/services/AudioService.ts\<close>. The handle is cleared after
  \<^verbatim>\<open>getURI\<close>, and again in the \<^verbatim>\<open>catch\<close> block.
\<close>

definition stopRecording_A :: "FileSystem \<Rightarrow> AudioService \<Rightarrow> (exn + StopResult) \<times> AudioService" where
  "stopRecording_A storage s =
     (case recording s of
        None \<Rightarrow> (Inl (Error ''No active recording''), s)
      | Some rec \<Rightarrow>
          (let duration = reportedDuration rec;
               cleared = s\<lparr> recording := None \<rparr>
           in case stopDefensively rec of
                Inl e \<Rightarrow> (Inl e, cleared)
              | Inr u \<Rightarrow>
                  (case usableUri rec of
                     None \<Rightarrow> (Inl (Error ''Recording file missing''), cleared)
                   | Some uri \<Rightarrow>
                       (case getInfoAsync storage uri of
                          Inl e \<Rightarrow> (Inl e, cleared)
                        | Inr info \<Rightarrow>
                            if \<not> infoExists info
                               \<or> (case infoSize info of None \<Rightarrow> 0 | Some n \<Rightarrow> n) = 0
                            then (Inl (Error ''Recorded file is missing or empty''), cleared)
                            else (Inr \<lparr> resultUri = uri, resultMimeType = RECORDING_MIME,
                                       resultDuration = duration \<rparr>, cleared)))))"

text \<open>
  \<^verbatim>\<open>stopRecording\<close> of \<^verbatim>\<open>part_003\<close>. The handle is cleared first. A rejected
  \<^verbatim>\<open>statAsync\<close> is logged and leaves \<open>info\<close> \<^verbatim>\<open>null\<close>; the check runs "when info is
  available". The duration falls back to the time since \<^verbatim>\<open>recordingStartTs\<close> (when that
  is set and not 0), else to 1000. The \<^verbatim>\<open>finally\<close> block resets the start time.
\<close>

definition stopRecording_B ::
  "int \<Rightarrow> FileSystem \<Rightarrow> AudioService \<Rightarrow> (exn + StopResult) \<times> AudioService" where
  "stopRecording_B now storage s =
     (case recording s of
        None \<Rightarrow> (Inl (Error ''No active recording''), s)
      | Some rec \<Rightarrow>
          (let done = s\<lparr> recording := None, recordingStartTs := None \<rparr>
           in case stopDefensively rec of
                Inl e \<Rightarrow> (Inl e, done)
              | Inr u \<Rightarrow>
                  (case usableUri rec of
                     None \<Rightarrow> (Inl (Error ''Recording file missing''), done)
                   | Some uri \<Rightarrow>
                       (let info = (case getInfoAsync storage uri of
                                      Inl e \<Rightarrow> None | Inr i \<Rightarrow> Some i)
                        in if (case info of
                                 None \<Rightarrow> False
                               | Some i \<Rightarrow> infoExists i = False
                                   \<or> (case infoSize i of None \<Rightarrow> False | Some n \<Rightarrow> n \<le> 0))
                           then (Inl (Error ''Recorded file is missing or empty''), done)
                           else
                             (let duration =
                                    (case reportedDuration rec of
                                       Some d \<Rightarrow> d
                                     | None \<Rightarrow>
                                         (case recordingStartTs s of
                                            Some ts \<Rightarrow> if ts \<noteq> 0 then now - ts else 1000
                                          | None \<Rightarrow> 1000))
                              in (Inr \<lparr> resultUri = uri, resultMimeType = RECORDING_MIME,
                                        resultDuration = Some (max 0 duration) \<rparr>, done))))))"

text \<open>
  "try to delete temp file if exists": everything in it is inside a \<^verbatim>\<open>try\<close> whose
  \<^verbatim>\<open>catch\<close> ignores the error, so a failure leaves the storage as it was.
\<close>

definition deleteTempFile :: "FileSystem \<Rightarrow> RecordingHandle \<Rightarrow> FileSystem" where
  "deleteTempFile storage rec =
     (case usableUri rec of
        None \<Rightarrow> storage
      | Some uri \<Rightarrow>
          (case getInfoAsync storage uri of
             Inl e \<Rightarrow> storage
           | Inr info \<Rightarrow>
               if infoExists info
               then (case deleteAsync storage uri of Inl e \<Rightarrow> storage | Inr storage' \<Rightarrow> storage')
               else storage))"

text \<open>
  \<^verbatim>\<open>cancelRecording\<close>. Version A clears the handle last, version B first, together with
  the start time. The result is \<open>Inr ()\<close> when the call resolves.
\<close>

definition cancelRecording_A ::
  "FileSystem \<Rightarrow> AudioService \<Rightarrow> (exn + unit) \<times> AudioService \<times> FileSystem" where
  "cancelRecording_A storage s =
     (case recording s of
        None \<Rightarrow> (Inr (), s, storage)
      | Some rec \<Rightarrow>
          (case (case safeStopAndUnload (Some rec) of Inl e \<Rightarrow> Inr () | Inr u \<Rightarrow> Inr u) of
             Inl e \<Rightarrow> (Inl e, s, storage)
           | Inr u \<Rightarrow> (Inr (), s\<lparr> recording := None \<rparr>, deleteTempFile storage rec)))"

definition cancelRecording_B ::
  "FileSystem \<Rightarrow> AudioService \<Rightarrow> (exn + unit) \<times> AudioService \<times> FileSystem" where
  "cancelRecording_B storage s =
     (case recording s of
        None \<Rightarrow> (Inr (), s, storage)
      | Some rec \<Rightarrow>
          (let cleared = s\<lparr> recording := None, recordingStartTs := None \<rparr>
           in case (case safeStopAndUnload (Some rec) of Inl e \<Rightarrow> Inr () | Inr u \<Rightarrow> Inr u) of
                Inl e \<Rightarrow> (Inl e, cleared, storage)
              | Inr u \<Rightarrow> (Inr (), cleared, deleteTempFile storage rec)))"

text \<open>
  \<^verbatim>\<open>getRecordingStatus\<close> (the same in both versions): \<^verbatim>\<open>null\<close> without a recording or
  when the status query throws; otherwise the metering, -160 when the status has none,
  and a frequency derived from it (\<^verbatim>\<open>metering ? (metering + 160) / 160 : 0\<close>, times 2000).
\<close>

definition getRecordingStatus :: "AudioService \<Rightarrow> RecordingStatusInfo option" where
  "getRecordingStatus s =
     (case recording s of
        None \<Rightarrow> None
      | Some rec \<Rightarrow>
          (case statusResult rec of
             Inl e \<Rightarrow> None
           | Inr status \<Rightarrow>
               (let metering = (case statusMetering status of None \<Rightarrow> -160 | Some m \<Rightarrow> m);
                    normalized = (if metering \<noteq> 0 then (metering + 160) / 160 else 0)
                in Some \<lparr> infoMetering = Some metering, infoFrequency = normalized * 2000 \<rparr>)))"


subsection \<open>Example platform values\<close>

definition recordedHandle :: RecordingHandle where
  "recordedHandle =
     \<lparr> statusResult = Inr \<lparr> statusIsRecording = True, statusDurationMillis = Some 3400,
                             statusDuration = None, statusMetering = Some (-20) \<rparr>,
       stopResult = Inr (),
       unloadResult = None,
       uriResult = Some ''file:///cache/rec.m4a'' \<rparr>"

definition recordingService :: AudioService where
  "recordingService = \<lparr> recording = Some recordedHandle, recordingStartTs = Some 1000 \<rparr>"

text \<open>A storage that holds the recording with the given size, and answers every query.\<close>

definition storageWith :: "nat \<Rightarrow> FileSystem" where
  "storageWith n =
     \<lparr> files = [''file:///cache/rec.m4a'' \<mapsto> n],
       infoError = (\<lambda>path. None),
       deleteError = (\<lambda>path. None) \<rparr>"

text \<open>A storage without the recording, whose information query rejects.\<close>

definition storageStatFails :: FileSystem where
  "storageStatFails =
     \<lparr> files = Map.empty,
       infoError = (\<lambda>path. Some (Error ''No such file'')),
       deleteError = (\<lambda>path. None) \<rparr>"

text \<open>A recording whose status reports a metering level of 4 dB, above full scale.\<close>

definition loudService :: AudioService where
  "loudService =
     \<lparr> recording = Some (recordedHandle\<lparr> statusResult :=
         Inr \<lparr> statusIsRecording = True, statusDurationMillis = Some 3400,
               statusDuration = None, statusMetering = Some 4 \<rparr> \<rparr>),
       recordingStartTs = Some 1000 \<rparr>"


section \<open>The sound cues (\<^verbatim>\<open>src/services/AudioManager.ts\<close>)\<close>

text \<open>
  The loaded success sounds, each by whether its \<^verbatim>\<open>replayAsync\<close> resolves, the index
  of the next one, and the log of the sounds replayed. \<^verbatim>\<open>playNextSuccessSound\<close>
  catches every error, and advances the index only after a replay that resolved.
\<close>

record AudioManager =
  successSounds :: "bool list"
  currentIndex :: nat
  played :: "nat list"

definition playNextSuccessSound :: "AudioManager \<Rightarrow> AudioManager" where
  "playNextSuccessSound m =
     (if currentIndex m < length (successSounds m)
      then (if successSounds m ! currentIndex m
            then m\<lparr> played := played m @ [currentIndex m],
                    currentIndex := (currentIndex m + 1) mod length (successSounds m) \<rparr>
            else m)
      else m)"


section \<open>The interaction controller (\<^verbatim>\<open>HomeScreen\<close>, \<^verbatim>\<open>src/unnamed/part_004\<close>)\<close>

text \<open>
  \<^verbatim>\<open>part_004\<close> holds two versions of the screen. The handlers of the first (lines 1 to
  680) keep their names here; those of the second (from line 680) carry the suffix
  \<open>_old\<close>. A handler is a function on the world: the React state of the screen, the
  gateway, the capture session, the storage and the sound cues. What a handler reads from
  the React state is the state of the render it was created in, the world it is called
  on; what it sets is the state after it.
\<close>

datatype UiState = uiIdle | uiListening | uiProcessing | uiClarification | uiError | uiCancelled

record RecordingItem =
  itemTranscript :: string
  itemUri :: string
  itemTimestamp :: int
  itemDurationSec :: "int option"

record HomeScreen =
  uiState :: UiState
  recordings :: "RecordingItem list"
  errorMessage :: "string option"
  clarifyPrompt :: "string option"
  uiScenario :: Scenario
  showTimePicker :: bool
  liveModeRef :: bool

record World =
  wScreen :: HomeScreen
  wGateway :: VoiceApiImpl
  wCapture :: AudioService
  wStorage :: FileSystem
  wCues :: AudioManager

text \<open>
  The screen imports \<^verbatim>\<open>@/services/AudioService\<close>; the handlers take the two operations
  they call as a parameter, so that they can run on either version of the class, or on
  any other behaviour of it.
\<close>

record AudioOps =
  opStop :: "int \<Rightarrow> FileSystem \<Rightarrow> AudioService \<Rightarrow> (exn + StopResult) \<times> AudioService"
  opCancel :: "FileSystem \<Rightarrow> AudioService \<Rightarrow> (exn + unit) \<times> AudioService \<times> FileSystem"

definition serviceA :: AudioOps where
  "serviceA = \<lparr> opStop = (\<lambda>now. stopRecording_A), opCancel = cancelRecording_A \<rparr>"

definition serviceB :: AudioOps where
  "serviceB = \<lparr> opStop = stopRecording_B, opCancel = cancelRecording_B \<rparr>"

text \<open>
  What a handler takes from outside the world: the clock (in the handler and inside
  \<^verbatim>\<open>stopRecording\<close>), the ISO time stamp of the request, the random draws, and the
  effect on the storage of the sweep \<^verbatim>\<open>cleanupOldRecordings\<close>, which the cancel handler
  starts without awaiting it and which catches its own errors.
\<close>

record Env =
  envNow :: int
  envStopNow :: int
  envClientTs :: string
  envLiveDraw :: real
  envDraws :: RandomDraws
  envSweep :: "FileSystem \<Rightarrow> FileSystem"

text \<open>\<^verbatim>\<open>Math.round(duration / 1000)\<close> on a whole number of milliseconds.\<close>

definition roundSeconds :: "int \<Rightarrow> int" where
  "roundSeconds duration = (duration + 500) div 1000"

text \<open>
  The context \<^verbatim>\<open>processRecording\<close> sends: the previous prompt, when the screen is in
  the clarification state (and, in the first version, the prompt is a non-empty string).
\<close>

definition requestContext :: "HomeScreen \<Rightarrow> (string \<rightharpoonup> jsval) option" where
  "requestContext c =
     (case clarifyPrompt c of
        None \<Rightarrow> None
      | Some p \<Rightarrow>
          if uiState c = uiClarification \<and> p \<noteq> []
          then Some [''previousPrompt'' \<mapsto> JStr p] else None)"

definition requestContext_old :: "HomeScreen \<Rightarrow> (string \<rightharpoonup> jsval) option" where
  "requestContext_old c =
     (if uiState c = uiClarification
      then Some [''previousPrompt'' \<mapsto> (case clarifyPrompt c of None \<Rightarrow> JNull | Some p \<Rightarrow> JStr p)]
      else None)"

text \<open>The outer \<^verbatim>\<open>catch\<close> of \<^verbatim>\<open>handleStop\<close>.\<close>

definition stopFailed :: "exn \<Rightarrow> World \<Rightarrow> World" where
  "stopFailed e w =
     w\<lparr> wScreen := (wScreen w)
         \<lparr> errorMessage := Some (if errorMessageOf e = []
                                 then ''Could not process recording. Please try again.''
                                 else errorMessageOf e),
           uiState := uiError,
           liveModeRef := False \<rparr> \<rparr>"

text \<open>
  What \<^verbatim>\<open>handleStop\<close> does with the outcome of \<^verbatim>\<open>processRecording\<close> (both versions):
  a thrown error goes to the inner \<^verbatim>\<open>catch\<close>; \<^verbatim>\<open>ok\<close> puts the new record in front of
  the list, clears the prompt, plays the cue if the scenario is \<^verbatim>\<open>success\<close>, and sets the
  state to idle; a clarification stores the prompt.
\<close>

definition routeResult ::
  "Env \<Rightarrow> StopResult \<Rightarrow> (ProcessVoiceError + ProcessVoiceResult) \<Rightarrow> World \<Rightarrow> World" where
  "routeResult env r res w =
     (let c = wScreen w in
      case res of
        Inl err \<Rightarrow> w\<lparr> wScreen := c\<lparr> errorMessage := Some (message err), uiState := uiError \<rparr> \<rparr>
      | Inr (ok transcript) \<Rightarrow>
          w\<lparr> wCues := (if uiScenario c = success then playNextSuccessSound (wCues w) else wCues w),
             wScreen := c
               \<lparr> recordings :=
                   \<lparr> itemTranscript = transcript, itemUri = resultUri r,
                     itemTimestamp = envNow env,
                     itemDurationSec = map_option roundSeconds (resultDuration r) \<rparr>
                   # recordings c,
                 clarifyPrompt := None,
                 uiState := uiIdle \<rparr> \<rparr>
      | Inr (clarification p) \<Rightarrow>
          w\<lparr> wScreen := c\<lparr> clarifyPrompt := Some p, uiState := uiClarification \<rparr> \<rparr>)"

text \<open>
  \<^verbatim>\<open>handleStop\<close>, first version. In live mode it plays the cue, stops the live
  recognition and records its transcript. In file mode it stops the recording, and sends
  the file to the gateway.
\<close>

definition handleStop :: "AudioOps \<Rightarrow> Env \<Rightarrow> World \<Rightarrow> World" where
  "handleStop ops env w =
     (let c = wScreen w in
      if liveModeRef c
      then (case stopLiveRecognition (wGateway w) (envLiveDraw env) of
              (transcript, g) \<Rightarrow>
                w\<lparr> wCues := playNextSuccessSound (wCues w),
                   wGateway := g,
                   wScreen := c
                     \<lparr> recordings :=
                         \<lparr> itemTranscript =
                             (if transcript = [] then ''(no speech detected)'' else transcript),
                           itemUri = [], itemTimestamp = envNow env, itemDurationSec = None \<rparr>
                         # recordings c,
                       clarifyPrompt := None,
                       uiState := uiIdle,
                       liveModeRef := False \<rparr> \<rparr>)
      else (case opStop ops (envStopNow env) (wStorage w) (wCapture w) of
              (Inl e, a) \<Rightarrow> stopFailed e (w\<lparr> wCapture := a \<rparr>)
            | (Inr r, a) \<Rightarrow>
                if resultUri r = []
                then stopFailed (Error ''Recording failed - no audio file created'')
                       (w\<lparr> wCapture := a \<rparr>)
                else (case processVoice (wGateway w)
                             \<lparr> audioUri = resultUri r, mimeType = resultMimeType r,
                               clientTs = envClientTs env, inputContext = requestContext c \<rparr>
                             (envDraws env) of
                        (res, g) \<Rightarrow> routeResult env r res (w\<lparr> wCapture := a, wGateway := g \<rparr>))))"

text \<open>
  \<^verbatim>\<open>handleStop\<close>, second version. In live mode the cue is played after the transcript,
  if the scenario is \<^verbatim>\<open>success\<close> and the transcript is not empty.
\<close>

definition handleStop_old :: "AudioOps \<Rightarrow> Env \<Rightarrow> World \<Rightarrow> World" where
  "handleStop_old ops env w =
     (let c = wScreen w in
      if liveModeRef c
      then (case stopLiveRecognition (wGateway w) (envLiveDraw env) of
              (transcript, g) \<Rightarrow>
                w\<lparr> wCues := (if uiScenario c = success \<and> transcript \<noteq> []
                             then playNextSuccessSound (wCues w) else wCues w),
                   wGateway := g,
                   wScreen := c
                     \<lparr> recordings :=
                         \<lparr> itemTranscript =
                             (if transcript = [] then ''(no speech detected)'' else transcript),
                           itemUri = [], itemTimestamp = envNow env, itemDurationSec = None \<rparr>
                         # recordings c,
                       clarifyPrompt := None,
                       uiState := uiIdle,
                       liveModeRef := False \<rparr> \<rparr>)
      else (case opStop ops (envStopNow env) (wStorage w) (wCapture w) of
              (Inl e, a) \<Rightarrow> stopFailed e (w\<lparr> wCapture := a \<rparr>)
            | (Inr r, a) \<Rightarrow>
                (case processVoice (wGateway w)
                        \<lparr> audioUri = resultUri r, mimeType = resultMimeType r,
                          clientTs = envClientTs env, inputContext = requestContext_old c \<rparr>
                        (envDraws env) of
                   (res, g) \<Rightarrow> routeResult env r res (w\<lparr> wCapture := a, wGateway := g \<rparr>))))"

text \<open>
  \<^verbatim>\<open>handleCancel\<close>, first version. Every call in it has its own \<^verbatim>\<open>.catch\<close>: a failed
  \<^verbatim>\<open>stopRecording\<close> is followed by \<^verbatim>\<open>cancelRecording\<close>, whose failure is logged. Then
  the sweep is started, and after the settle delay the prompt and the error message are
  cleared and the state is set to idle.
\<close>

definition handleCancel :: "AudioOps \<Rightarrow> Env \<Rightarrow> World \<Rightarrow> World" where
  "handleCancel ops env w =
     (let c = (wScreen w)\<lparr> uiState := uiCancelled \<rparr>;
          stopped =
            (if liveModeRef c
             then (case stopLiveRecognition (wGateway w) (envLiveDraw env) of
                     (transcript, g) \<Rightarrow> w\<lparr> wGateway := g \<rparr>)
             else (case opStop ops (envStopNow env) (wStorage w) (wCapture w) of
                     (Inr r, a) \<Rightarrow> w\<lparr> wCapture := a \<rparr>
                   | (Inl e, a) \<Rightarrow>
                       (case opCancel ops (wStorage w) a of
                          (res, a', storage') \<Rightarrow> w\<lparr> wCapture := a', wStorage := storage' \<rparr>)))
      in stopped
           \<lparr> wStorage := envSweep env (wStorage stopped),
             wScreen := c\<lparr> clarifyPrompt := None, errorMessage := None,
                           liveModeRef := False, uiState := uiIdle \<rparr> \<rparr>)"

text \<open>
  \<^verbatim>\<open>handleCancel\<close>, second version: it stops the live recognition or cancels the
  recording, and sets the state to idle, also when the cancellation threw.
\<close>

definition handleCancel_old :: "AudioOps \<Rightarrow> Env \<Rightarrow> World \<Rightarrow> World" where
  "handleCancel_old ops env w =
     (let c = wScreen w;
          stopped =
            (if liveModeRef c
             then (case stopLiveRecognition (wGateway w) (envLiveDraw env) of
                     (transcript, g) \<Rightarrow> w\<lparr> wGateway := g \<rparr>)
             else (case opCancel ops (wStorage w) (wCapture w) of
                     (res, a', storage') \<Rightarrow> w\<lparr> wCapture := a', wStorage := storage' \<rparr>))
      in stopped\<lparr> wScreen := c\<lparr> liveModeRef := False, uiState := uiIdle \<rparr> \<rparr>)"


subsection \<open>Example worlds\<close>

definition exampleEnv :: Env where
  "exampleEnv =
     \<lparr> envNow = 1700000005000, envStopNow = 1700000003000,
       envClientTs = ''2023-11-14T22:13:23.000Z'',
       envLiveDraw = 0,
       envDraws = \<lparr> drawTranscript = 0, drawChance = 1/2, drawPrompt = 0 \<rparr>,
       envSweep = (\<lambda>storage. storage) \<rparr>"

text \<open>A screen that is listening in file mode, in the given scenario, with a recording
  of 2048 bytes under way and two sounds loaded.\<close>

definition listeningWorld :: "Scenario \<Rightarrow> World" where
  "listeningWorld sc =
     \<lparr> wScreen = \<lparr> uiState = uiListening, recordings = [], errorMessage = None,
                   clarifyPrompt = None, uiScenario = sc, showTimePicker = False,
                   liveModeRef = False \<rparr>,
       wGateway = setScenario voiceApi sc,
       wCapture = recordingService,
       wStorage = storageWith 2048,
       wCues = \<lparr> successSounds = [True, True], currentIndex = 0, played = [] \<rparr> \<rparr>"

text \<open>A screen left in the error state by a failed capture, with a prompt still pending.\<close>

definition failedWorld :: World where
  "failedWorld =
     \<lparr> wScreen = \<lparr> uiState = uiError, recordings = [],
                   errorMessage = Some ''Recorded file is missing or empty'',
                   clarifyPrompt = Some ''What time should I set it for?'',
                   uiScenario = clarify, showTimePicker = True, liveModeRef = False \<rparr>,
       wGateway = (setScenario voiceApi clarify)\<lparr> completeNextAsSuccess := True \<rparr>,
       wCapture = audioService,
       wStorage = storageWith 0,
       wCues = \<lparr> successSounds = [True, True], currentIndex = 0, played = [] \<rparr> \<rparr>"


text \<open>A screen listening in scenario Clarify after a clarification: the gateway's
  follow-up flag is armed.\<close>

definition followUpWorld :: World where
  "followUpWorld =
     (listeningWorld clarify)
       \<lparr> wGateway := (setScenario voiceApi clarify)\<lparr> completeNextAsSuccess := True \<rparr> \<rparr>"

text \<open>A screen that is listening in live mode, in the given scenario.\<close>

definition liveWorld :: "Scenario \<Rightarrow> World" where
  "liveWorld sc =
     (listeningWorld sc)
       \<lparr> wScreen := (wScreen (listeningWorld sc))\<lparr> liveModeRef := True \<rparr>,
         wGateway := startLiveRecognition (setScenario voiceApi sc),
         wCapture := audioService \<rparr>"


section \<open>Properties of the gateway\<close>

lemma selectedTime_absent: "\<not> hasSelectedTime input \<Longrightarrow> selectedTime input = JUndefined"
  by (simp add: hasSelectedTime_def selectedTime_def split: option.splits)

lemma processVoice_armed:
  "completeNextAsSuccess g \<Longrightarrow>
   processVoice g input r = (Inr (ok FOLLOW_UP_TRANSCRIPT), g\<lparr> completeNextAsSuccess := False \<rparr>)"
  by (simp add: processVoice_def processVoice_sync_def)

text \<open>
  Claim C1. In scenario Clarify with the follow-up flag disarmed, a \<^verbatim>\<open>processVoice\<close> call
  whose context has no \<^verbatim>\<open>selectedTime\<close> returns the clarification with exactly the prompt
  "What time should I set it for?" and arms the flag; the call that follows it, for any
  input and any draws, returns \<^verbatim>\<open>ok\<close> with exactly the follow-up transcript
  (the word Okay, an em dash, "got it (follow-up).") and disarms the flag.
\<close>

theorem clarify_then_follow_up:
  assumes "scenario g = clarify" and "\<not> completeNextAsSuccess g"
    and "\<not> hasSelectedTime input"
  shows "fst (processVoice g input r) = Inr (clarification ''What time should I set it for?'')
       \<and> completeNextAsSuccess (snd (processVoice g input r))
       \<and> fst (processVoice (snd (processVoice g input r)) input' r')
           = Inr (ok (''Okay '' @ [CHR 0xE2, CHR 0x80, CHR 0x94] @ '' got it (follow-up).''))
       \<and> \<not> completeNextAsSuccess (snd (processVoice (snd (processVoice g input r)) input' r'))"
proof -
  have first: "processVoice g input r =
      (Inr (clarification ''What time should I set it for?''), g\<lparr> completeNextAsSuccess := True \<rparr>)"
    using assms by (simp add: processVoice_def processVoice_sync_def selectedTime_absent)
  have second: "processVoice (g\<lparr> completeNextAsSuccess := True \<rparr>) input' r' =
      (Inr (ok FOLLOW_UP_TRANSCRIPT), g\<lparr> completeNextAsSuccess := False \<rparr>)"
    by (simp add: processVoice_armed)
  show ?thesis
    by (simp add: first second FOLLOW_UP_TRANSCRIPT_def em_dash_def)
qed

theorem clarify_then_follow_up_witness:
  "scenario (setScenario voiceApi clarify) = clarify
   \<and> \<not> completeNextAsSuccess (setScenario voiceApi clarify)
   \<and> \<not> hasSelectedTime \<lparr> audioUri = ''file:///rec.m4a'', mimeType = ''audio/m4a'',
         clientTs = ''t0'', inputContext = None \<rparr>
   \<and> fst (processVoice (setScenario voiceApi clarify)
         \<lparr> audioUri = ''file:///rec.m4a'', mimeType = ''audio/m4a'',
           clientTs = ''t0'', inputContext = None \<rparr>
         \<lparr> drawTranscript = 0, drawChance = 1/2, drawPrompt = 0 \<rparr>)
       = Inr (clarification ''What time should I set it for?'')
   \<and> fst (processVoice
         (snd (processVoice (setScenario voiceApi clarify)
           \<lparr> audioUri = ''file:///rec.m4a'', mimeType = ''audio/m4a'',
             clientTs = ''t0'', inputContext = None \<rparr>
           \<lparr> drawTranscript = 0, drawChance = 1/2, drawPrompt = 0 \<rparr>))
         \<lparr> audioUri = [], mimeType = ''text/plain'', clientTs = ''t1'',
           inputContext = Some [''selectedTime'' \<mapsto> JStr ''3:00 PM''] \<rparr>
         \<lparr> drawTranscript = 0, drawChance = 0, drawPrompt = 0 \<rparr>)
       = Inr (ok (''Okay '' @ [CHR 0xE2, CHR 0x80, CHR 0x94] @ '' got it (follow-up).''))"
proof -
  have a: "scenario (setScenario voiceApi clarify) = clarify"
    by (simp add: setScenario_def)
  have b: "\<not> completeNextAsSuccess (setScenario voiceApi clarify)"
    by (simp add: setScenario_def)
  have c: "\<not> hasSelectedTime \<lparr> audioUri = ''file:///rec.m4a'', mimeType = ''audio/m4a'',
         clientTs = ''t0'', inputContext = None \<rparr>"
    by (simp add: hasSelectedTime_def)
  show ?thesis
    using clarify_then_follow_up [OF a b c] a b c by simp
qed

text \<open>
  Claim C7. In scenario Clarify with the follow-up flag disarmed, a \<^verbatim>\<open>processVoice\<close> call
  whose context carries \<^verbatim>\<open>selectedTime = "3:00 PM"\<close> returns \<^verbatim>\<open>ok\<close> with exactly the
  transcript "Alarm set for 3:00 PM." and leaves the gateway as it was: no clarification
  is returned and the follow-up flag stays disarmed.
\<close>

theorem clarify_with_selected_time:
  assumes "scenario g = clarify" and "\<not> completeNextAsSuccess g"
    and "inputContext input = Some m" and "m ''selectedTime'' = Some (JStr ''3:00 PM'')"
  shows "processVoice g input r = (Inr (ok ''Alarm set for 3:00 PM.''), g)
       \<and> \<not> completeNextAsSuccess (snd (processVoice g input r))"
  using assms by (simp add: processVoice_def processVoice_sync_def selectedTime_def)

theorem clarify_with_selected_time_witness:
  "processVoice (setScenario voiceApi clarify)
     \<lparr> audioUri = [], mimeType = ''text/plain'', clientTs = ''t1'',
       inputContext = Some [''previousPrompt'' \<mapsto> JStr ''What time should I set it for?'',
                            ''selectedTime'' \<mapsto> JStr ''3:00 PM''] \<rparr>
     \<lparr> drawTranscript = 0, drawChance = 0, drawPrompt = 0 \<rparr>
   = (Inr (ok ''Alarm set for 3:00 PM.''), setScenario voiceApi clarify)"
proof -
  have a: "scenario (setScenario voiceApi clarify) = clarify"
    by (simp add: setScenario_def)
  have b: "\<not> completeNextAsSuccess (setScenario voiceApi clarify)"
    by (simp add: setScenario_def)
  show ?thesis
    using clarify_with_selected_time [OF a b,
        of _ "[''previousPrompt'' \<mapsto> JStr ''What time should I set it for?'',
               ''selectedTime'' \<mapsto> JStr ''3:00 PM'']"]
    by simp
qed

subsection \<open>The error scenarios and the follow-up flag\<close>

text \<open>
  With calls that do not overlap, the flag is never armed in an error scenario:
  \<^verbatim>\<open>setScenario\<close> disarms it, and \<^verbatim>\<open>processVoice\<close> keeps the scenario and arms the
  flag in the scenarios \<^verbatim>\<open>success\<close> and \<^verbatim>\<open>clarify\<close> only.
\<close>

lemma processVoice_scenario: "scenario (snd (processVoice g input r)) = scenario g"
  by (simp add: processVoice_def processVoice_sync_def processVoice_resume_def Let_def
      split: Scenario.splits)

lemma processVoice_arms_only_success_clarify:
  "completeNextAsSuccess (snd (processVoice g input r)) \<Longrightarrow>
   scenario g = success \<or> scenario g = clarify"
  by (cases "scenario g")
     (simp_all add: processVoice_def processVoice_sync_def split: if_splits)

lemma runCall_keeps_disarmed:
  assumes "errorScenario g \<Longrightarrow> \<not> completeNextAsSuccess g"
    and "errorScenario (runCall g call)"
  shows "\<not> completeNextAsSuccess (runCall g call)"
proof (cases call)
  case (CallSetScenario s)
  then show ?thesis by (simp add: setScenario_def)
next
  case (CallProcessVoice input r)
  with assms(2) have "errorScenario g"
    by (simp add: errorScenario_def processVoice_scenario)
  then show ?thesis
    using CallProcessVoice processVoice_arms_only_success_clarify [of g input r]
    by (auto simp: errorScenario_def)
next
  case CallStartLive
  with assms show ?thesis by (simp add: startLiveRecognition_def errorScenario_def)
next
  case (CallStopLive r)
  with assms show ?thesis by (simp add: stopLiveRecognition_def errorScenario_def)
next
  case CallDestroy
  with assms show ?thesis by (simp add: destroy_def errorScenario_def)
qed

lemma sequential_error_scenario_disarmed:
  "errorScenario (runCalls (new_VoiceApiImpl d s) calls) \<Longrightarrow>
   \<not> completeNextAsSuccess (runCalls (new_VoiceApiImpl d s) calls)"
proof (induction calls rule: rev_induct)
  case Nil
  then show ?case by (simp add: runCalls_def new_VoiceApiImpl_def)
next
  case (snoc call calls)
  then show ?case
    using runCall_keeps_disarmed [of "runCalls (new_VoiceApiImpl d s) calls" call]
    by (simp add: runCalls_def)
qed

text \<open>
  Claim C2, as amended. In scenario NetworkError with the follow-up flag disarmed, every
  \<^verbatim>\<open>processVoice\<close> call throws the error with code \<^verbatim>\<open>NETWORK\<close> and the message
  "Network error. Please try again.", and leaves the gateway, the flag included, as it
  was.
\<close>

theorem network_error_when_disarmed:
  assumes "scenario g = networkError" and "\<not> completeNextAsSuccess g"
  shows "processVoice g input r =
           (Inl \<lparr> code = NETWORK, message = ''Network error. Please try again.'' \<rparr>, g)"
  using assms by (simp add: processVoice_def processVoice_sync_def)

theorem network_error_when_disarmed_witness:
  "processVoice (setScenario voiceApi networkError)
     \<lparr> audioUri = ''file:///rec.m4a'', mimeType = ''audio/m4a'',
       clientTs = ''t0'', inputContext = None \<rparr>
     \<lparr> drawTranscript = 0, drawChance = 0, drawPrompt = 0 \<rparr>
   = (Inl \<lparr> code = NETWORK, message = ''Network error. Please try again.'' \<rparr>,
      setScenario voiceApi networkError)"
proof -
  have a: "scenario (setScenario voiceApi networkError) = networkError"
    by (simp add: setScenario_def)
  have b: "\<not> completeNextAsSuccess (setScenario voiceApi networkError)"
    by (simp add: setScenario_def)
  show ?thesis
    using network_error_when_disarmed [OF a b] by simp
qed

text \<open>
  The claim as stated, for every gateway state in scenario NetworkError, fails on a state
  the gateway reaches: a \<^verbatim>\<open>processVoice\<close> call starts in scenario Success and reaches
  its delay; \<^verbatim>\<open>setScenario('networkError')\<close> runs during the delay; the call resumes,
  its chance draw is below 0.1, and it arms the flag. The gateway is then in scenario
  NetworkError with the flag armed, and the next call returns the follow-up transcript
  and disarms the flag instead of throwing.
\<close>

theorem network_error_armed_counterexample:
  "processVoice_sync voiceApi
     \<lparr> audioUri = ''file:///rec.m4a'', mimeType = ''audio/m4a'',
       clientTs = ''t0'', inputContext = None \<rparr>
     = (None, voiceApi)
   \<and> processVoice_resume (setScenario voiceApi networkError)
       \<lparr> audioUri = ''file:///rec.m4a'', mimeType = ''audio/m4a'',
         clientTs = ''t0'', inputContext = None \<rparr>
       \<lparr> drawTranscript = 0, drawChance = 1/20, drawPrompt = 0 \<rparr>
     = (Inr (clarification ''Can you repeat that?''),
        \<lparr> scenario = networkError, delayMs = 1000,
          completeNextAsSuccess = True, liveActive = False \<rparr>)
   \<and> processVoice
       \<lparr> scenario = networkError, delayMs = 1000,
         completeNextAsSuccess = True, liveActive = False \<rparr>
       \<lparr> audioUri = ''file:///rec2.m4a'', mimeType = ''audio/m4a'',
         clientTs = ''t1'', inputContext = None \<rparr>
       \<lparr> drawTranscript = 0, drawChance = 1/2, drawPrompt = 0 \<rparr>
     = (Inr (ok FOLLOW_UP_TRANSCRIPT),
        \<lparr> scenario = networkError, delayMs = 1000,
          completeNextAsSuccess = False, liveActive = False \<rparr>)"
  by (simp add: processVoice_def processVoice_sync_def processVoice_resume_def
      voiceApi_def new_VoiceApiImpl_def setScenario_def pick_def PROMPTS_def)


section \<open>Properties of the waveform buffers\<close>

lemma recordTicks_Nil: "recordTicks [] = emptyBuffers"
  by (simp add: recordTicks_def updateWaveform_def)

lemma recordTicks_snoc:
  "recordTicks (samples @ [(m, f)]) = pushSample (recordTicks samples) m f"
  by (simp add: recordTicks_def updateWaveform_def)

lemma drop_snoc_shift:
  assumes "WAVE_POINTS \<le> length xs"
  shows "tl (drop (length xs - WAVE_POINTS) xs @ [x]) = drop (Suc (length xs) - WAVE_POINTS) (xs @ [x])"
proof -
  have pos: "0 < WAVE_POINTS" by (simp add: WAVE_POINTS_def)
  have ne: "drop (length xs - WAVE_POINTS) xs \<noteq> []"
    using assms pos by simp
  have "tl (drop (length xs - WAVE_POINTS) xs @ [x]) = tl (drop (length xs - WAVE_POINTS) xs) @ [x]"
    using ne by simp
  also have "tl (drop (length xs - WAVE_POINTS) xs) = drop (Suc (length xs - WAVE_POINTS)) xs"
    by (simp add: drop_Suc tl_drop)
  also have "Suc (length xs - WAVE_POINTS) = Suc (length xs) - WAVE_POINTS"
    using assms by simp
  finally show ?thesis
    using assms pos by simp
qed

lemma recordTicks_buffers:
  "meterBuffer (recordTicks samples) = drop (length samples - WAVE_POINTS) (map fst samples)
   \<and> frequencyBuffer (recordTicks samples) = drop (length samples - WAVE_POINTS) (map snd samples)"
proof (induction samples rule: rev_induct)
  case Nil
  then show ?case by (simp add: recordTicks_Nil emptyBuffers_def)
next
  case (snoc s samples)
  obtain m f where s: "s = (m, f)" by (cases s)
  let ?n = "length samples"
  have len: "length (meterBuffer (recordTicks samples)) = min ?n WAVE_POINTS"
    using snoc by simp
  show ?case
  proof (cases "WAVE_POINTS \<le> ?n")
    case True
    then have full: "length (meterBuffer (recordTicks samples) @ [m]) > WAVE_POINTS"
      using len by simp
    have "meterBuffer (recordTicks (samples @ [s])) = tl (meterBuffer (recordTicks samples) @ [m])"
      using full by (simp add: s recordTicks_snoc pushSample_def Let_def)
    moreover have "frequencyBuffer (recordTicks (samples @ [s])) =
        tl (frequencyBuffer (recordTicks samples) @ [f])"
      using full by (simp add: s recordTicks_snoc pushSample_def Let_def)
    ultimately show ?thesis
      using snoc True drop_snoc_shift [of "map fst samples" m] drop_snoc_shift [of "map snd samples" f]
      by (simp add: s)
  next
    case False
    then have room: "\<not> length (meterBuffer (recordTicks samples) @ [m]) > WAVE_POINTS"
      using len by simp
    have "meterBuffer (recordTicks (samples @ [s])) = meterBuffer (recordTicks samples) @ [m]"
      using room by (simp add: s recordTicks_snoc pushSample_def Let_def)
    moreover have "frequencyBuffer (recordTicks (samples @ [s])) =
        frequencyBuffer (recordTicks samples) @ [f]"
      using room by (simp add: s recordTicks_snoc pushSample_def Let_def)
    ultimately show ?thesis
      using snoc False by (simp add: s)
  qed
qed

lemma pushSample_full:
  assumes "length (meterBuffer b) = WAVE_POINTS"
  shows "meterBuffer (pushSample b m f) = tl (meterBuffer b) @ [m]"
    and "frequencyBuffer (pushSample b m f) = tl (frequencyBuffer b @ [f])"
proof -
  have "meterBuffer b \<noteq> []"
    using assms by (auto simp: WAVE_POINTS_def)
  then show "meterBuffer (pushSample b m f) = tl (meterBuffer b) @ [m]"
    using assms by (simp add: pushSample_def Let_def)
  show "frequencyBuffer (pushSample b m f) = tl (frequencyBuffer b @ [f])"
    using assms by (simp add: pushSample_def Let_def)
qed

text \<open>
  Claim C6. From the reset buffers, after the pushes of any sequence of ticks both
  buffers hold at most \<open>WAVE_POINTS = 60\<close> samples, and they hold exactly the most recent
  samples in the order they were pushed; a push on a full buffer removes the sample at
  the front, the oldest, and puts the new one at the back.
\<close>

theorem waveform_buffer_fifo:
  "WAVE_POINTS = 60
   \<and> length (meterBuffer (recordTicks samples)) \<le> WAVE_POINTS
   \<and> length (frequencyBuffer (recordTicks samples)) \<le> WAVE_POINTS
   \<and> meterBuffer (recordTicks samples) = drop (length samples - WAVE_POINTS) (map fst samples)
   \<and> frequencyBuffer (recordTicks samples) = drop (length samples - WAVE_POINTS) (map snd samples)
   \<and> (length (meterBuffer (recordTicks samples)) = WAVE_POINTS \<longrightarrow>
        meterBuffer (updateWaveform True (Some (m, f)) (recordTicks samples))
          = tl (meterBuffer (recordTicks samples)) @ [m]
        \<and> frequencyBuffer (updateWaveform True (Some (m, f)) (recordTicks samples))
          = tl (frequencyBuffer (recordTicks samples)) @ [f])"
proof -
  have bufs: "meterBuffer (recordTicks samples) = drop (length samples - WAVE_POINTS) (map fst samples)"
    "frequencyBuffer (recordTicks samples) = drop (length samples - WAVE_POINTS) (map snd samples)"
    using recordTicks_buffers [of samples] by simp_all
  have lens: "length (meterBuffer (recordTicks samples)) \<le> WAVE_POINTS"
    "length (frequencyBuffer (recordTicks samples)) \<le> WAVE_POINTS"
    by (simp_all add: bufs)
  have evict: "meterBuffer (updateWaveform True (Some (m, f)) (recordTicks samples))
          = tl (meterBuffer (recordTicks samples)) @ [m]
        \<and> frequencyBuffer (updateWaveform True (Some (m, f)) (recordTicks samples))
          = tl (frequencyBuffer (recordTicks samples)) @ [f]"
    if full: "length (meterBuffer (recordTicks samples)) = WAVE_POINTS"
  proof -
    have "length (frequencyBuffer (recordTicks samples)) = WAVE_POINTS"
      using full by (simp add: bufs)
    then have "frequencyBuffer (recordTicks samples) \<noteq> []"
      by (auto simp: WAVE_POINTS_def)
    then show ?thesis
      using pushSample_full [OF full, of m f] by (simp add: updateWaveform_def)
  qed
  show ?thesis
    using bufs lens evict by (simp add: WAVE_POINTS_def)
qed

theorem waveform_buffer_fifo_witness:
  "length (meterBuffer (recordTicks (replicate 60 (0, 0) @ [(1, 440)]))) = 60
   \<and> meterBuffer (recordTicks (replicate 60 (0, 0) @ [(1, 440)])) = replicate 59 0 @ [1]
   \<and> meterBuffer (updateWaveform True (Some (2, 880)) (recordTicks (replicate 60 (0, 0) @ [(1, 440)])))
       = replicate 58 0 @ [1, 2]
   \<and> frequencyBuffer (updateWaveform True (Some (2, 880)) (recordTicks (replicate 60 (0, 0) @ [(1, 440)])))
       = replicate 58 0 @ [440, 880]"
proof -
  let ?samples = "replicate 60 (0::real, 0::real) @ [(1, 440)]"
  let ?b = "recordTicks ?samples"
  note fifo = waveform_buffer_fifo [of ?samples 2 880]
  have r60: "replicate 60 (0::real) = 0 # replicate 59 0"
    by (simp add: numeral_eq_Suc)
  have r59: "replicate 59 (0::real) = 0 # replicate 58 0"
    by (simp add: numeral_eq_Suc)
  from fifo have "meterBuffer ?b = drop (length ?samples - WAVE_POINTS) (map fst ?samples)"
    by blast
  then have m: "meterBuffer ?b = replicate 59 0 @ [1]"
    by (simp add: WAVE_POINTS_def r60)
  from fifo have "frequencyBuffer ?b = drop (length ?samples - WAVE_POINTS) (map snd ?samples)"
    by blast
  then have f: "frequencyBuffer ?b = replicate 59 0 @ [440]"
    by (simp add: WAVE_POINTS_def r60)
  have full: "length (meterBuffer ?b) = WAVE_POINTS"
    by (simp add: m WAVE_POINTS_def)
  from fifo full have
    "meterBuffer (updateWaveform True (Some (2, 880)) ?b) = tl (meterBuffer ?b) @ [2]
     \<and> frequencyBuffer (updateWaveform True (Some (2, 880)) ?b) = tl (frequencyBuffer ?b) @ [880]"
    by blast
  then have push:
    "meterBuffer (updateWaveform True (Some (2, 880)) ?b) = replicate 58 0 @ [1, 2]
     \<and> frequencyBuffer (updateWaveform True (Some (2, 880)) ?b) = replicate 58 0 @ [440, 880]"
    by (simp add: m f r59)
  show ?thesis
    using m push by simp
qed


section \<open>Properties of the pitch estimator\<close>

text \<open>
  The descending scan returns, and it stops inside the array: reading \<open>c[d + 1]\<close> beyond
  the last entry gives \<^verbatim>\<open>undefined\<close>, and the comparison with it is false.
\<close>

lemma descend_terminates:
  "\<exists>d'. descend c d = Some d' \<and> d \<le> d' \<and> (d' = d \<or> d' < length c)"
proof (induction "length c - d" arbitrary: d rule: less_induct)
  case less
  show ?case
  proof (cases "jsGreater (readAt c (int d)) (readAt c (int d + 1))")
    case True
    then have inb: "d + 1 < length c"
      by (cases "readAt c (int d + 1)"; cases "readAt c (int d)")
         (auto simp: readAt_def split: if_splits)
    then have "length c - (d + 1) < length c - d" by simp
    from less [OF this] obtain d' where
      "descend c (d + 1) = Some d'" "d + 1 \<le> d'" "d' = d + 1 \<or> d' < length c"
      by blast
    with True inb show ?thesis
      by (subst descend.simps) auto
  next
    case False
    then show ?thesis by (subst descend.simps) simp
  qed
qed

lemma autoCorrelate_returns: "\<exists>res. autoCorrelate buffer sampleRate = Some res"
proof -
  obtain d where "descend (autocorr (trim buffer)) 0 = Some d"
    using descend_terminates [of "autocorr (trim buffer)" 0] by blast
  then show ?thesis
    by (simp add: autoCorrelate_def Let_def)
qed

lemma toFrequency_range: "toFrequency sampleRate T0 = Some freq \<Longrightarrow> 0 < freq \<and> freq \<le> 5000"
  by (auto simp: toFrequency_def Let_def split: if_splits)

lemma autoCorrelate_range:
  assumes "autoCorrelate buffer sampleRate = Some (Some freq)"
  shows "0 < freq \<and> freq \<le> 5000"
proof -
  from assms obtain T0 where "toFrequency sampleRate T0 = Some freq"
    by (auto simp: autoCorrelate_def Let_def split: if_splits option.splits)
  then show ?thesis by (rule toFrequency_range)
qed

lemma interpolate_boundary:
  assumes "readAt c (T0 - 1) = None \<or> readAt c (T0 + 1) = None"
  shows "coeffA c T0 = None \<and> interpolate c T0 = real_of_int T0"
proof -
  have "coeffA c T0 = None"
    using assms by (auto simp: coeffA_def split: option.splits)
  then show ?thesis by (simp add: interpolate_def)
qed

text \<open>Two runs of the estimator, step by step.\<close>

lemma run_alternating:
  "trim [1, -1, 1, -1, 1, -1, 1] = [1, -1, 1, -1, 1, -1]"
  "autocorr [1, -1, 1, -1, 1, -1] = [6, -5, 4, -3, 2, -1]"
  "descend [6, -5, 4, -3, 2, -1] 0 = Some (Suc 0)"
  "findMax [6, -5, 4, -3, 2, -1] (Suc 0) = (4, 2)"
  "interpolate [6, -5, 4, -3, 2, -1] 2 = 33/16"
  by (simp_all add: trim_def slice_def thres_def autocorr_def upt_rec numeral_nat
      descend.simps readAt_def findMax_def interpolate_def coeffA_def coeffB_def)

lemma autoCorrelate_alternating:
  "autoCorrelate [1, -1, 1, -1, 1, -1, 1] 3300 = Some (Some 1600)"
  by (simp add: autoCorrelate_def rmsOf_def run_alternating toFrequency_def Let_def)

lemma run_boundary:
  "trim [1, 2, 1] = [1, 2]"
  "autocorr [1, 2] = [5, 2]"
  "descend [5, 2] 0 = Some (Suc 0)"
  "findMax [5, 2] (Suc 0) = (2, 1)"
  "readAt [5, 2] 2 = None"
  "interpolate [5, 2] 1 = 1"
  by (simp_all add: trim_def slice_def thres_def autocorr_def upt_rec numeral_nat
      descend.simps readAt_def findMax_def interpolate_def coeffA_def coeffB_def)

lemma autoCorrelate_boundary: "autoCorrelate [1, 2, 1] 1000 = Some (Some 1000)"
proof -
  have "(1::real) \<le> sqrt 2"
    by (rule real_sqrt_ge_one) simp
  then have loud: "\<not> sqrt 2 * 100 < (1::real)"
    by linarith
  show ?thesis
    using loud
    by (simp add: autoCorrelate_def rmsOf_def run_boundary toFrequency_def Let_def)
qed

lemma autoCorrelate_silent: "autoCorrelate [0, 0, 0, 0] 44100 = Some None"
  by (simp add: autoCorrelate_def rmsOf_def)

lemma autoCorrelate_empty: "autoCorrelate [] 44100 = Some None"
  by (simp add: autoCorrelate_def rmsOf_def trim_def slice_def autocorr_def descend.simps
      readAt_def findMax_def interpolate_def coeffA_def coeffB_def toFrequency_def)

text \<open>
  Claim C5. For every sample buffer and sample rate, \<^verbatim>\<open>autoCorrelate\<close> returns
  \<^verbatim>\<open>null\<close> whenever the RMS of the buffer is below the silence threshold 0.01; and
  whenever it returns a frequency, the frequency is a (finite) number that is strictly
  positive and at most 5000.
\<close>

theorem autoCorrelate_silence_and_range:
  "(\<forall>rms. rmsOf buffer = Some rms \<and> rms < 0.01 \<longrightarrow> autoCorrelate buffer sampleRate = Some None)
   \<and> (\<forall>freq. autoCorrelate buffer sampleRate = Some (Some freq) \<longrightarrow> 0 < freq \<and> freq \<le> 5000)"
proof (intro conjI allI impI)
  fix rms
  assume "rmsOf buffer = Some rms \<and> rms < 0.01"
  then show "autoCorrelate buffer sampleRate = Some None"
    by (simp add: autoCorrelate_def)
next
  fix freq
  assume r: "autoCorrelate buffer sampleRate = Some (Some freq)"
  show "0 < freq" using autoCorrelate_range [OF r] by simp
  show "freq \<le> 5000" using autoCorrelate_range [OF r] by simp
qed

theorem autoCorrelate_silence_and_range_witness:
  "rmsOf [0, 0, 0, 0] = Some 0 \<and> (0::real) < 0.01
   \<and> autoCorrelate [0, 0, 0, 0] 44100 = Some None
   \<and> autoCorrelate [1, -1, 1, -1, 1, -1, 1] 3300 = Some (Some 1600)
   \<and> (0::real) < 1600 \<and> (1600::real) \<le> 5000"
proof -
  have rms: "rmsOf [0, 0, 0, 0] = Some 0 \<and> (0::real) < 0.01"
    by (simp add: rmsOf_def)
  have silent: "autoCorrelate [0, 0, 0, 0] 44100 = Some None"
    using autoCorrelate_silence_and_range [of "[0, 0, 0, 0]" 44100] rms by blast
  have range: "(0::real) < 1600 \<and> (1600::real) \<le> 5000"
    using autoCorrelate_silence_and_range [of "[1, -1, 1, -1, 1, -1, 1]" 3300]
      autoCorrelate_alternating by blast
  show ?thesis
    using rms silent range autoCorrelate_alternating by simp
qed

text \<open>
  Claim C10. \<^verbatim>\<open>autoCorrelate\<close> returns, with \<^verbatim>\<open>null\<close> or a number, on every buffer of
  numbers (the empty and the all-zero buffer included) and every sample rate. The
  descending scan halts no later than at the last entry of the autocorrelation array.
  When the read at \<open>T0 - 1\<close> or at \<open>T0 + 1\<close> falls outside the array, the coefficient
  \<open>a\<close> is not a number, the guard \<^verbatim>\<open>if (a)\<close> fails, and the lag stays the integer \<open>T0\<close>.
\<close>

theorem autoCorrelate_total:
  "(\<exists>res. autoCorrelate buffer sampleRate = Some res)
   \<and> (\<exists>d. descend (autocorr (trim buffer)) 0 = Some d
          \<and> (d = 0 \<or> d < length (autocorr (trim buffer))))
   \<and> (\<forall>T0. readAt (autocorr (trim buffer)) (T0 - 1) = None
             \<or> readAt (autocorr (trim buffer)) (T0 + 1) = None
          \<longrightarrow> coeffA (autocorr (trim buffer)) T0 = None
              \<and> interpolate (autocorr (trim buffer)) T0 = real_of_int T0)"
proof (intro conjI allI impI)
  show "\<exists>res. autoCorrelate buffer sampleRate = Some res"
    by (rule autoCorrelate_returns)
  show "\<exists>d. descend (autocorr (trim buffer)) 0 = Some d
          \<and> (d = 0 \<or> d < length (autocorr (trim buffer)))"
    using descend_terminates [of "autocorr (trim buffer)" 0] by blast
next
  fix T0
  assume out: "readAt (autocorr (trim buffer)) (T0 - 1) = None
             \<or> readAt (autocorr (trim buffer)) (T0 + 1) = None"
  show "coeffA (autocorr (trim buffer)) T0 = None"
    using interpolate_boundary [OF out] by simp
  show "interpolate (autocorr (trim buffer)) T0 = real_of_int T0"
    using interpolate_boundary [OF out] by simp
qed

theorem autoCorrelate_total_witness:
  "autoCorrelate [1, 2, 1] 1000 = Some (Some 1000)
   \<and> autoCorrelate [] 44100 = Some None
   \<and> autoCorrelate [0, 0, 0, 0] 44100 = Some None
   \<and> descend (autocorr (trim [1, 2, 1])) 0 = Some 1
   \<and> snd (findMax (autocorr (trim [1, 2, 1])) 1) = 1
   \<and> readAt (autocorr (trim [1, 2, 1])) (1 + 1) = None
   \<and> coeffA (autocorr (trim [1, 2, 1])) 1 = None
   \<and> interpolate (autocorr (trim [1, 2, 1])) 1 = 1"
proof -
  have out: "readAt (autocorr (trim [1, 2, 1])) (1 + 1) = None"
    by (simp add: run_boundary)
  have "coeffA (autocorr (trim [1, 2, 1])) 1 = None
      \<and> interpolate (autocorr (trim [1, 2, 1])) 1 = real_of_int 1"
    using autoCorrelate_total [of "[1, 2, 1]" 1000] out by blast
  then show ?thesis
    using out autoCorrelate_boundary autoCorrelate_empty autoCorrelate_silent
    by (simp add: run_boundary)
qed


section \<open>Properties of the metering conversion\<close>

lemma nativeSample_nonneg: "0 \<le> fst (nativeSample status)"
  by (simp add: nativeSample_def Let_def split: option.splits)

lemma nativeSample_full_scale:
  assumes "infoMetering st = Some m" and "m \<le> 0"
  shows "fst (nativeSample (Some st)) = clampedMeter m
       \<and> 0 \<le> fst (nativeSample (Some st)) \<and> fst (nativeSample (Some st)) \<le> 1"
  using assms by (simp add: nativeSample_def clampedMeter_def)

text \<open>
  Claim C9 at a metering level above 0. The status reports 4 dB; \<^verbatim>\<open>getRecordingStatus\<close>
  passes it on, and the native branch of \<^verbatim>\<open>updateWaveform\<close> produces the amplitude
  \<open>(4 + 160) / 160 = 41/40\<close>, which is above 1, where the clamped conversion gives 1:
  the code clamps at 0 only.
\<close>

theorem native_meter_above_full_scale:
  "getRecordingStatus loudService = Some \<lparr> infoMetering = Some 4, infoFrequency = 2050 \<rparr>
   \<and> fst (nativeSample (getRecordingStatus loudService)) = 41/40
   \<and> clampedMeter 4 = 1
   \<and> fst (nativeSample (getRecordingStatus loudService)) > 1"
  by (simp add: getRecordingStatus_def loudService_def recordedHandle_def nativeSample_def
      clampedMeter_def)


section \<open>Properties of the capture session\<close>

lemma safeStopAndUnload_resolves: "safeStopAndUnload rec = Inr ()"
  by (simp add: safeStopAndUnload_def split: option.splits sum.splits)

lemma stopDefensively_resolves: "stopDefensively h = Inr ()"
  by (simp add: stopDefensively_def safeStopAndUnload_resolves split: sum.splits)

lemma stopRecording_no_recording:
  assumes "recording s = None"
  shows "fst (stopRecording_A storage s) = Inl (Error ''No active recording'')"
    and "fst (stopRecording_B now storage s) = Inl (Error ''No active recording'')"
  using assms by (simp_all add: stopRecording_A_def stopRecording_B_def)

lemma stopRecording_no_uri:
  assumes "recording s = Some h" and "usableUri h = None"
  shows "fst (stopRecording_A storage s) = Inl (Error ''Recording file missing'')"
    and "fst (stopRecording_B now storage s) = Inl (Error ''Recording file missing'')"
  using assms
  by (simp_all add: stopRecording_A_def stopRecording_B_def stopDefensively_resolves Let_def)

lemma stopRecording_empty_artifact:
  assumes "recording s = Some h" and "usableUri h = Some u" and "infoError storage u = None"
    and "files storage u = None \<or> files storage u = Some 0"
  shows "fst (stopRecording_A storage s) = Inl (Error ''Recorded file is missing or empty'')"
    and "fst (stopRecording_B now storage s) = Inl (Error ''Recorded file is missing or empty'')"
  using assms
  by (auto simp: stopRecording_A_def stopRecording_B_def stopDefensively_resolves Let_def
      getInfoAsync_def)

lemma stopRecording_good_artifact:
  assumes "recording s = Some h" and "usableUri h = Some u" and "infoError storage u = None"
    and "files storage u = Some n" and "0 < n"
  shows "\<exists>r. fst (stopRecording_A storage s) = Inr r \<and> resultUri r = u"
    and "\<exists>r. fst (stopRecording_B now storage s) = Inr r \<and> resultUri r = u"
  using assms
  by (simp_all add: stopRecording_A_def stopRecording_B_def stopDefensively_resolves Let_def
      getInfoAsync_def)

lemma stopRecording_info_fails:
  assumes "recording s = Some h" and "usableUri h = Some u" and "infoError storage u = Some e"
  shows "fst (stopRecording_A storage s) = Inl e"
    and "\<exists>r. fst (stopRecording_B now storage s) = Inr r \<and> resultUri r = u"
  using assms
  by (simp_all add: stopRecording_A_def stopRecording_B_def stopDefensively_resolves Let_def
      getInfoAsync_def)

lemma stopRecording_A_returns:
  assumes "fst (stopRecording_A storage s) = Inr r"
  shows "\<exists>n. files storage (resultUri r) = Some n \<and> 0 < n"
proof -
  from assms obtain h where h: "recording s = Some h"
    by (cases "recording s") (simp_all add: stopRecording_A_def)
  from assms h obtain u where u: "usableUri h = Some u"
    by (cases "usableUri h")
       (simp_all add: stopRecording_A_def stopDefensively_resolves Let_def)
  from assms h u have ok: "infoError storage u = None"
    by (cases "infoError storage u")
       (simp_all add: stopRecording_A_def stopDefensively_resolves Let_def getInfoAsync_def)
  from assms h u ok obtain n where n: "files storage u = Some n"
    by (cases "files storage u")
       (simp_all add: stopRecording_A_def stopDefensively_resolves Let_def getInfoAsync_def)
  from assms h u ok n have "0 < n \<and> resultUri r = u"
    by (auto simp: stopRecording_A_def stopDefensively_resolves Let_def getInfoAsync_def
        split: if_splits)
  with n show ?thesis by simp
qed

lemma stopRecording_B_returns:
  assumes "fst (stopRecording_B now storage s) = Inr r"
    and "infoError storage (resultUri r) = None"
  shows "\<exists>n. files storage (resultUri r) = Some n \<and> 0 < n"
proof -
  from assms(1) obtain h where h: "recording s = Some h"
    by (cases "recording s") (simp_all add: stopRecording_B_def)
  from assms(1) h obtain u where u: "usableUri h = Some u"
    by (cases "usableUri h")
       (simp_all add: stopRecording_B_def stopDefensively_resolves Let_def)
  from assms(1) h u have ru: "resultUri r = u"
    by (auto simp: stopRecording_B_def stopDefensively_resolves Let_def split: if_splits)
  with assms(2) have ok: "infoError storage u = None" by simp
  from assms(1) h u ok obtain n where n: "files storage u = Some n"
    by (cases "files storage u")
       (simp_all add: stopRecording_B_def stopDefensively_resolves Let_def getInfoAsync_def)
  from assms(1) h u ok n have "0 < n"
    by (auto simp: stopRecording_B_def stopDefensively_resolves Let_def getInfoAsync_def
        split: if_splits)
  with n ru show ?thesis by simp
qed

text \<open>
  Claim C3, as amended. \<^verbatim>\<open>stopRecording\<close> throws, in both versions, when there is no
  active recording, when the stopped recording has no URI, and when the information query
  answers and reports the file missing or of size 0. When the query answers and reports a
  file of nonzero size, both versions return its URI. When the query itself rejects,
  version A throws that error and version B returns the URI unchecked. So a normal return
  of version A names an existing file of nonzero size, and a normal return of version B
  does whenever the query on the returned URI answers.
\<close>

theorem stopRecording_outcomes:
  "(recording s = None \<longrightarrow>
      fst (stopRecording_A storage s) = Inl (Error ''No active recording'')
      \<and> fst (stopRecording_B now storage s) = Inl (Error ''No active recording''))
   \<and> (\<forall>h. recording s = Some h \<and> usableUri h = None \<longrightarrow>
      fst (stopRecording_A storage s) = Inl (Error ''Recording file missing'')
      \<and> fst (stopRecording_B now storage s) = Inl (Error ''Recording file missing''))
   \<and> (\<forall>h u. recording s = Some h \<and> usableUri h = Some u \<and> infoError storage u = None
        \<and> (files storage u = None \<or> files storage u = Some 0) \<longrightarrow>
      fst (stopRecording_A storage s) = Inl (Error ''Recorded file is missing or empty'')
      \<and> fst (stopRecording_B now storage s) = Inl (Error ''Recorded file is missing or empty''))
   \<and> (\<forall>h u n. recording s = Some h \<and> usableUri h = Some u \<and> infoError storage u = None
        \<and> files storage u = Some n \<and> 0 < n \<longrightarrow>
      (\<exists>r. fst (stopRecording_A storage s) = Inr r \<and> resultUri r = u)
      \<and> (\<exists>r. fst (stopRecording_B now storage s) = Inr r \<and> resultUri r = u))
   \<and> (\<forall>h u e. recording s = Some h \<and> usableUri h = Some u \<and> infoError storage u = Some e \<longrightarrow>
      fst (stopRecording_A storage s) = Inl e
      \<and> (\<exists>r. fst (stopRecording_B now storage s) = Inr r \<and> resultUri r = u))
   \<and> (\<forall>r. fst (stopRecording_A storage s) = Inr r \<longrightarrow>
      (\<exists>n. files storage (resultUri r) = Some n \<and> 0 < n))
   \<and> (\<forall>r. fst (stopRecording_B now storage s) = Inr r \<and> infoError storage (resultUri r) = None \<longrightarrow>
      (\<exists>n. files storage (resultUri r) = Some n \<and> 0 < n))"
proof (intro conjI allI impI)
  assume "recording s = None"
  then show "fst (stopRecording_A storage s) = Inl (Error ''No active recording'')"
    and "fst (stopRecording_B now storage s) = Inl (Error ''No active recording'')"
    by (rule stopRecording_no_recording)+
next
  fix h
  assume a: "recording s = Some h \<and> usableUri h = None"
  show "fst (stopRecording_A storage s) = Inl (Error ''Recording file missing'')"
    using a stopRecording_no_uri(1) by blast
  show "fst (stopRecording_B now storage s) = Inl (Error ''Recording file missing'')"
    using a stopRecording_no_uri(2) by blast
next
  fix h u
  assume a: "recording s = Some h \<and> usableUri h = Some u \<and> infoError storage u = None
        \<and> (files storage u = None \<or> files storage u = Some 0)"
  show "fst (stopRecording_A storage s) = Inl (Error ''Recorded file is missing or empty'')"
    using a stopRecording_empty_artifact(1) by blast
  show "fst (stopRecording_B now storage s) = Inl (Error ''Recorded file is missing or empty'')"
    using a stopRecording_empty_artifact(2) by blast
next
  fix h u n
  assume a: "recording s = Some h \<and> usableUri h = Some u \<and> infoError storage u = None
        \<and> files storage u = Some n \<and> 0 < n"
  show "\<exists>r. fst (stopRecording_A storage s) = Inr r \<and> resultUri r = u"
    using a stopRecording_good_artifact(1) by blast
  show "\<exists>r. fst (stopRecording_B now storage s) = Inr r \<and> resultUri r = u"
    using a stopRecording_good_artifact(2) by blast
next
  fix h u e
  assume a: "recording s = Some h \<and> usableUri h = Some u \<and> infoError storage u = Some e"
  show "fst (stopRecording_A storage s) = Inl e"
    using a stopRecording_info_fails(1) by blast
  show "\<exists>r. fst (stopRecording_B now storage s) = Inr r \<and> resultUri r = u"
    using a stopRecording_info_fails(2) by blast
next
  fix r
  assume "fst (stopRecording_A storage s) = Inr r"
  then show "\<exists>n. files storage (resultUri r) = Some n \<and> 0 < n"
    by (rule stopRecording_A_returns)
next
  fix r
  assume "fst (stopRecording_B now storage s) = Inr r \<and> infoError storage (resultUri r) = None"
  then show "\<exists>n. files storage (resultUri r) = Some n \<and> 0 < n"
    using stopRecording_B_returns by blast
qed

theorem stopRecording_outcomes_witness:
  "fst (stopRecording_A (storageWith 2048) audioService) = Inl (Error ''No active recording'')
   \<and> fst (stopRecording_B 5000 (storageWith 2048) audioService) = Inl (Error ''No active recording'')
   \<and> fst (stopRecording_A (storageWith 0) recordingService)
        = Inl (Error ''Recorded file is missing or empty'')
   \<and> fst (stopRecording_B 5000 (storageWith 0) recordingService)
        = Inl (Error ''Recorded file is missing or empty'')
   \<and> fst (stopRecording_A storageStatFails recordingService) = Inl (Error ''No such file'')
   \<and> fst (stopRecording_A (storageWith 2048) recordingService)
        = Inr \<lparr> resultUri = ''file:///cache/rec.m4a'', resultMimeType = ''audio/m4a'',
                resultDuration = Some 3400 \<rparr>
   \<and> files (storageWith 2048) ''file:///cache/rec.m4a'' = Some 2048"
proof -
  let ?u = "''file:///cache/rec.m4a''"
  have none: "recording audioService = None"
    by (simp add: audioService_def)
  have some: "recording recordingService = Some recordedHandle \<and> usableUri recordedHandle = Some ?u"
    by (simp add: recordingService_def recordedHandle_def usableUri_def)
  have empty: "infoError (storageWith 0) ?u = None
      \<and> (files (storageWith 0) ?u = None \<or> files (storageWith 0) ?u = Some 0)"
    by (simp add: storageWith_def)
  have fails: "infoError storageStatFails ?u = Some (Error ''No such file'')"
    by (simp add: storageStatFails_def)
  have c1: "fst (stopRecording_A (storageWith 2048) audioService) = Inl (Error ''No active recording'')
      \<and> fst (stopRecording_B 5000 (storageWith 2048) audioService) = Inl (Error ''No active recording'')"
    using stopRecording_outcomes [of audioService "storageWith 2048" 5000] none by blast
  have c2: "fst (stopRecording_A (storageWith 0) recordingService)
        = Inl (Error ''Recorded file is missing or empty'')
      \<and> fst (stopRecording_B 5000 (storageWith 0) recordingService)
        = Inl (Error ''Recorded file is missing or empty'')"
    using stopRecording_outcomes [of recordingService "storageWith 0" 5000] some empty by blast
  have c3: "fst (stopRecording_A storageStatFails recordingService) = Inl (Error ''No such file'')"
    using stopRecording_outcomes [of recordingService storageStatFails 5000] some fails by blast
  have c4: "fst (stopRecording_A (storageWith 2048) recordingService)
        = Inr \<lparr> resultUri = ?u, resultMimeType = ''audio/m4a'', resultDuration = Some 3400 \<rparr>"
    by (simp add: stopRecording_A_def stopDefensively_resolves recordingService_def
        recordedHandle_def usableUri_def reportedDuration_def getInfoAsync_def storageWith_def
        RECORDING_MIME_def)
  have c5: "files (storageWith 2048) ?u = Some 2048"
    using stopRecording_outcomes [of recordingService "storageWith 2048" 5000] c4
    by (simp add: storageWith_def)
  show ?thesis
    using c1 c2 c3 c4 c5 by simp
qed

text \<open>
  The claim as stated fails on version B: the recording's file is missing and the
  information query rejects; \<^verbatim>\<open>stopRecording\<close> logs the rejection, skips the check and
  returns the URI of a file that does not exist.
\<close>

theorem stopRecording_unverified_counterexample:
  "fst (stopRecording_B 5000 storageStatFails recordingService)
     = Inr \<lparr> resultUri = ''file:///cache/rec.m4a'', resultMimeType = ''audio/m4a'',
             resultDuration = Some 3400 \<rparr>
   \<and> files storageStatFails ''file:///cache/rec.m4a'' = None"
  by (simp add: stopRecording_B_def stopDefensively_resolves recordingService_def
      recordedHandle_def usableUri_def reportedDuration_def getInfoAsync_def
      storageStatFails_def RECORDING_MIME_def)

lemma cancelRecording_A_resolves:
  "fst (cancelRecording_A storage s) = Inr ()
   \<and> recording (fst (snd (cancelRecording_A storage s))) = None"
  by (simp add: cancelRecording_A_def safeStopAndUnload_resolves split: option.splits)

lemma cancelRecording_B_resolves:
  "fst (cancelRecording_B storage s) = Inr ()
   \<and> recording (fst (snd (cancelRecording_B storage s))) = None"
  by (simp add: cancelRecording_B_def safeStopAndUnload_resolves Let_def split: option.splits)

lemma cancelRecording_idle:
  assumes "recording s = None"
  shows "cancelRecording_A storage s = (Inr (), s, storage)"
    and "cancelRecording_B storage s = (Inr (), s, storage)"
  using assms by (simp_all add: cancelRecording_A_def cancelRecording_B_def)


section \<open>Properties of the controller\<close>

lemma handleCancel_screen:
  "wScreen (handleCancel ops env w) =
     (wScreen w)\<lparr> clarifyPrompt := None, errorMessage := None,
                  liveModeRef := False, uiState := uiIdle \<rparr>"
  by (simp add: handleCancel_def Let_def split: prod.splits sum.splits)

lemma handleCancel_old_screen:
  "wScreen (handleCancel_old ops env w) = (wScreen w)\<lparr> liveModeRef := False, uiState := uiIdle \<rparr>"
  by (simp add: handleCancel_old_def Let_def split: prod.splits)

text \<open>
  Claim C4. \<^verbatim>\<open>cancelRecording\<close>, in both versions of the class, resolves whatever the
  recording object and the storage do, and leaves the handle cleared; on a cleared handle
  it changes nothing, so a second cancel is a no-op. After \<^verbatim>\<open>handleCancel\<close> (the
  first version of the screen) the state is idle and the clarification prompt and the
  error message are cleared, from every world and for every behaviour of the capture
  session; cancelling again gives the same.
\<close>

theorem cancel_never_raises:
  "fst (cancelRecording_A storage s) = Inr ()
   \<and> recording (fst (snd (cancelRecording_A storage s))) = None
   \<and> cancelRecording_A storage' (fst (snd (cancelRecording_A storage s)))
       = (Inr (), fst (snd (cancelRecording_A storage s)), storage')
   \<and> fst (cancelRecording_B storage s) = Inr ()
   \<and> recording (fst (snd (cancelRecording_B storage s))) = None
   \<and> cancelRecording_B storage' (fst (snd (cancelRecording_B storage s)))
       = (Inr (), fst (snd (cancelRecording_B storage s)), storage')
   \<and> uiState (wScreen (handleCancel ops env w)) = uiIdle
   \<and> clarifyPrompt (wScreen (handleCancel ops env w)) = None
   \<and> errorMessage (wScreen (handleCancel ops env w)) = None
   \<and> uiState (wScreen (handleCancel ops env' (handleCancel ops env w))) = uiIdle
   \<and> clarifyPrompt (wScreen (handleCancel ops env' (handleCancel ops env w))) = None
   \<and> errorMessage (wScreen (handleCancel ops env' (handleCancel ops env w))) = None"
proof -
  have a: "fst (cancelRecording_A storage s) = Inr ()"
    "recording (fst (snd (cancelRecording_A storage s))) = None"
    using cancelRecording_A_resolves [of storage s] by simp_all
  have b: "fst (cancelRecording_B storage s) = Inr ()"
    "recording (fst (snd (cancelRecording_B storage s))) = None"
    using cancelRecording_B_resolves [of storage s] by simp_all
  have a2: "cancelRecording_A storage' (fst (snd (cancelRecording_A storage s)))
       = (Inr (), fst (snd (cancelRecording_A storage s)), storage')"
    using a(2) by (rule cancelRecording_idle(1))
  have b2: "cancelRecording_B storage' (fst (snd (cancelRecording_B storage s)))
       = (Inr (), fst (snd (cancelRecording_B storage s)), storage')"
    using b(2) by (rule cancelRecording_idle(2))
  show ?thesis
    using a b a2 b2 by (simp add: handleCancel_screen)
qed

theorem cancel_never_raises_witness:
  "fst (cancelRecording_B (storageWith 2048) recordingService) = Inr ()
   \<and> recording (fst (snd (cancelRecording_B (storageWith 2048) recordingService))) = None
   \<and> files (snd (snd (cancelRecording_B (storageWith 2048) recordingService)))
       ''file:///cache/rec.m4a'' = None
   \<and> uiState (wScreen failedWorld) = uiError
   \<and> uiState (wScreen (handleCancel serviceB exampleEnv failedWorld)) = uiIdle
   \<and> clarifyPrompt (wScreen (handleCancel serviceB exampleEnv failedWorld)) = None
   \<and> errorMessage (wScreen (handleCancel serviceB exampleEnv failedWorld)) = None"
proof -
  have deleted: "files (snd (snd (cancelRecording_B (storageWith 2048) recordingService)))
       ''file:///cache/rec.m4a'' = None"
    by (simp add: cancelRecording_B_def safeStopAndUnload_resolves Let_def recordingService_def
        deleteTempFile_def recordedHandle_def usableUri_def getInfoAsync_def deleteAsync_def
        storageWith_def)
  have before: "uiState (wScreen failedWorld) = uiError"
    by (simp add: failedWorld_def)
  show ?thesis
    using cancel_never_raises [of "storageWith 2048" recordingService "storageWith 2048"
        serviceB exampleEnv failedWorld exampleEnv] deleted before
    by simp
qed

lemma routeResult_ok:
  "wScreen (routeResult env r (Inr (ok transcript)) w) =
     (wScreen w)
       \<lparr> recordings :=
           \<lparr> itemTranscript = transcript, itemUri = resultUri r, itemTimestamp = envNow env,
             itemDurationSec = map_option roundSeconds (resultDuration r) \<rparr>
           # recordings (wScreen w),
         clarifyPrompt := None,
         uiState := uiIdle \<rparr>"
  "wCues (routeResult env r (Inr (ok transcript)) w) =
     (if uiScenario (wScreen w) = success then playNextSuccessSound (wCues w) else wCues w)"
  by (simp_all add: routeResult_def Let_def)

lemma handleStop_file_ok:
  assumes "\<not> liveModeRef (wScreen w)"
    and "opStop ops (envStopNow env) (wStorage w) (wCapture w) = (Inr r, a)"
    and "resultUri r \<noteq> []"
    and "fst (processVoice (wGateway w)
           \<lparr> audioUri = resultUri r, mimeType = resultMimeType r,
             clientTs = envClientTs env, inputContext = requestContext (wScreen w) \<rparr>
           (envDraws env)) = Inr (ok transcript)"
  shows "handleStop ops env w =
     routeResult env r (Inr (ok transcript))
       (w\<lparr> wCapture := a,
           wGateway := snd (processVoice (wGateway w)
             \<lparr> audioUri = resultUri r, mimeType = resultMimeType r,
               clientTs = envClientTs env, inputContext = requestContext (wScreen w) \<rparr>
             (envDraws env)) \<rparr>)"
  using assms by (auto simp: handleStop_def Let_def split: prod.splits)

lemma handleStop_old_file_ok:
  assumes "\<not> liveModeRef (wScreen w)"
    and "opStop ops (envStopNow env) (wStorage w) (wCapture w) = (Inr r, a)"
    and "fst (processVoice (wGateway w)
           \<lparr> audioUri = resultUri r, mimeType = resultMimeType r,
             clientTs = envClientTs env, inputContext = requestContext_old (wScreen w) \<rparr>
           (envDraws env)) = Inr (ok transcript)"
  shows "handleStop_old ops env w =
     routeResult env r (Inr (ok transcript))
       (w\<lparr> wCapture := a,
           wGateway := snd (processVoice (wGateway w)
             \<lparr> audioUri = resultUri r, mimeType = resultMimeType r,
               clientTs = envClientTs env, inputContext = requestContext_old (wScreen w) \<rparr>
             (envDraws env)) \<rparr>)"
  using assms by (auto simp: handleStop_old_def Let_def split: prod.splits)

lemma handleStop_live:
  assumes "liveModeRef (wScreen w)"
  shows "wScreen (handleStop ops env w) =
     (wScreen w)
       \<lparr> recordings :=
           \<lparr> itemTranscript =
               (if fst (stopLiveRecognition (wGateway w) (envLiveDraw env)) = []
                then ''(no speech detected)''
                else fst (stopLiveRecognition (wGateway w) (envLiveDraw env))),
             itemUri = [], itemTimestamp = envNow env, itemDurationSec = None \<rparr>
           # recordings (wScreen w),
         clarifyPrompt := None, uiState := uiIdle, liveModeRef := False \<rparr>"
    and "wScreen (handleStop_old ops env w) = wScreen (handleStop ops env w)"
    and "wCues (handleStop ops env w) = playNextSuccessSound (wCues w)"
    and "wCues (handleStop_old ops env w) =
      (if uiScenario (wScreen w) = success
          \<and> fst (stopLiveRecognition (wGateway w) (envLiveDraw env)) \<noteq> []
       then playNextSuccessSound (wCues w) else wCues w)"
  using assms
  by (simp_all add: handleStop_def handleStop_old_def Let_def split: prod.splits)

text \<open>
  Where the handlers guard the cue. When \<^verbatim>\<open>handleStop\<close>, in either version of the
  screen, has stopped a file recording and receives \<^verbatim>\<open>ok\<close> from the gateway's
  \<^verbatim>\<open>processVoice\<close>, it adds the transcript record to the history (as its first entry:
  the list is kept newest first, and the earlier records stay as they were), clears the
  clarification prompt, sets the state to idle, and plays the success cue if the scenario
  is \<^verbatim>\<open>success\<close>; in every other scenario the sound cues are left as they were. When
  it stops a live recognition it adds the live transcript to the history, clears the
  prompt and sets the state to idle; the second version then leaves the sound cues as they
  were in every scenario other than \<^verbatim>\<open>success\<close>. The scenario a handler tests is the
  one of the render it was created in, the screen's scenario in the world it is called on.
\<close>

lemma handleStop_ok_result:
  "(\<not> liveModeRef (wScreen w)
      \<and> opStop ops (envStopNow env) (wStorage w) (wCapture w) = (Inr r, a)
      \<and> resultUri r \<noteq> []
      \<and> fst (processVoice (wGateway w)
           \<lparr> audioUri = resultUri r, mimeType = resultMimeType r,
             clientTs = envClientTs env, inputContext = requestContext (wScreen w) \<rparr>
           (envDraws env)) = Inr (ok transcript)
    \<longrightarrow> recordings (wScreen (handleStop ops env w)) =
          \<lparr> itemTranscript = transcript, itemUri = resultUri r, itemTimestamp = envNow env,
            itemDurationSec = map_option roundSeconds (resultDuration r) \<rparr>
          # recordings (wScreen w)
      \<and> clarifyPrompt (wScreen (handleStop ops env w)) = None
      \<and> uiState (wScreen (handleStop ops env w)) = uiIdle
      \<and> (uiScenario (wScreen w) = success
           \<longrightarrow> wCues (handleStop ops env w) = playNextSuccessSound (wCues w))
      \<and> (uiScenario (wScreen w) \<noteq> success \<longrightarrow> wCues (handleStop ops env w) = wCues w))
   \<and> (\<not> liveModeRef (wScreen w)
      \<and> opStop ops (envStopNow env) (wStorage w) (wCapture w) = (Inr r, a)
      \<and> fst (processVoice (wGateway w)
           \<lparr> audioUri = resultUri r, mimeType = resultMimeType r,
             clientTs = envClientTs env, inputContext = requestContext_old (wScreen w) \<rparr>
           (envDraws env)) = Inr (ok transcript)
    \<longrightarrow> recordings (wScreen (handleStop_old ops env w)) =
          \<lparr> itemTranscript = transcript, itemUri = resultUri r, itemTimestamp = envNow env,
            itemDurationSec = map_option roundSeconds (resultDuration r) \<rparr>
          # recordings (wScreen w)
      \<and> clarifyPrompt (wScreen (handleStop_old ops env w)) = None
      \<and> uiState (wScreen (handleStop_old ops env w)) = uiIdle
      \<and> (uiScenario (wScreen w) = success
           \<longrightarrow> wCues (handleStop_old ops env w) = playNextSuccessSound (wCues w))
      \<and> (uiScenario (wScreen w) \<noteq> success \<longrightarrow> wCues (handleStop_old ops env w) = wCues w))
   \<and> (liveModeRef (wScreen w)
    \<longrightarrow> recordings (wScreen (handleStop ops env w)) =
          \<lparr> itemTranscript =
              (if fst (stopLiveRecognition (wGateway w) (envLiveDraw env)) = []
               then ''(no speech detected)''
               else fst (stopLiveRecognition (wGateway w) (envLiveDraw env))),
            itemUri = [], itemTimestamp = envNow env, itemDurationSec = None \<rparr>
          # recordings (wScreen w)
      \<and> clarifyPrompt (wScreen (handleStop ops env w)) = None
      \<and> uiState (wScreen (handleStop ops env w)) = uiIdle)
   \<and> (liveModeRef (wScreen w)
    \<longrightarrow> recordings (wScreen (handleStop_old ops env w)) =
          \<lparr> itemTranscript =
              (if fst (stopLiveRecognition (wGateway w) (envLiveDraw env)) = []
               then ''(no speech detected)''
               else fst (stopLiveRecognition (wGateway w) (envLiveDraw env))),
            itemUri = [], itemTimestamp = envNow env, itemDurationSec = None \<rparr>
          # recordings (wScreen w)
      \<and> clarifyPrompt (wScreen (handleStop_old ops env w)) = None
      \<and> uiState (wScreen (handleStop_old ops env w)) = uiIdle
      \<and> (uiScenario (wScreen w) \<noteq> success \<longrightarrow> wCues (handleStop_old ops env w) = wCues w))"
proof (intro conjI impI)
  assume h: "\<not> liveModeRef (wScreen w)
      \<and> opStop ops (envStopNow env) (wStorage w) (wCapture w) = (Inr r, a)
      \<and> resultUri r \<noteq> []
      \<and> fst (processVoice (wGateway w)
           \<lparr> audioUri = resultUri r, mimeType = resultMimeType r,
             clientTs = envClientTs env, inputContext = requestContext (wScreen w) \<rparr>
           (envDraws env)) = Inr (ok transcript)"
  then have run: "handleStop ops env w =
     routeResult env r (Inr (ok transcript))
       (w\<lparr> wCapture := a,
           wGateway := snd (processVoice (wGateway w)
             \<lparr> audioUri = resultUri r, mimeType = resultMimeType r,
               clientTs = envClientTs env, inputContext = requestContext (wScreen w) \<rparr>
             (envDraws env)) \<rparr>)"
    using handleStop_file_ok by blast
  show "recordings (wScreen (handleStop ops env w)) =
          \<lparr> itemTranscript = transcript, itemUri = resultUri r, itemTimestamp = envNow env,
            itemDurationSec = map_option roundSeconds (resultDuration r) \<rparr>
          # recordings (wScreen w)"
    by (simp add: run routeResult_ok)
  show "clarifyPrompt (wScreen (handleStop ops env w)) = None"
    by (simp add: run routeResult_ok)
  show "uiState (wScreen (handleStop ops env w)) = uiIdle"
    by (simp add: run routeResult_ok)
  show "wCues (handleStop ops env w) = playNextSuccessSound (wCues w)"
    if "uiScenario (wScreen w) = success"
    using that by (simp add: run routeResult_ok)
  show "wCues (handleStop ops env w) = wCues w"
    if "uiScenario (wScreen w) \<noteq> success"
    using that by (simp add: run routeResult_ok)
next
  assume h: "\<not> liveModeRef (wScreen w)
      \<and> opStop ops (envStopNow env) (wStorage w) (wCapture w) = (Inr r, a)
      \<and> fst (processVoice (wGateway w)
           \<lparr> audioUri = resultUri r, mimeType = resultMimeType r,
             clientTs = envClientTs env, inputContext = requestContext_old (wScreen w) \<rparr>
           (envDraws env)) = Inr (ok transcript)"
  then have run: "handleStop_old ops env w =
     routeResult env r (Inr (ok transcript))
       (w\<lparr> wCapture := a,
           wGateway := snd (processVoice (wGateway w)
             \<lparr> audioUri = resultUri r, mimeType = resultMimeType r,
               clientTs = envClientTs env, inputContext = requestContext_old (wScreen w) \<rparr>
             (envDraws env)) \<rparr>)"
    using handleStop_old_file_ok by blast
  show "recordings (wScreen (handleStop_old ops env w)) =
          \<lparr> itemTranscript = transcript, itemUri = resultUri r, itemTimestamp = envNow env,
            itemDurationSec = map_option roundSeconds (resultDuration r) \<rparr>
          # recordings (wScreen w)"
    by (simp add: run routeResult_ok)
  show "clarifyPrompt (wScreen (handleStop_old ops env w)) = None"
    by (simp add: run routeResult_ok)
  show "uiState (wScreen (handleStop_old ops env w)) = uiIdle"
    by (simp add: run routeResult_ok)
  show "wCues (handleStop_old ops env w) = playNextSuccessSound (wCues w)"
    if "uiScenario (wScreen w) = success"
    using that by (simp add: run routeResult_ok)
  show "wCues (handleStop_old ops env w) = wCues w"
    if "uiScenario (wScreen w) \<noteq> success"
    using that by (simp add: run routeResult_ok)
next
  assume live: "liveModeRef (wScreen w)"
  show "recordings (wScreen (handleStop ops env w)) =
          \<lparr> itemTranscript =
              (if fst (stopLiveRecognition (wGateway w) (envLiveDraw env)) = []
               then ''(no speech detected)''
               else fst (stopLiveRecognition (wGateway w) (envLiveDraw env))),
            itemUri = [], itemTimestamp = envNow env, itemDurationSec = None \<rparr>
          # recordings (wScreen w)"
    by (simp add: handleStop_live(1) [OF live])
  show "clarifyPrompt (wScreen (handleStop ops env w)) = None"
    by (simp add: handleStop_live(1) [OF live])
  show "uiState (wScreen (handleStop ops env w)) = uiIdle"
    by (simp add: handleStop_live(1) [OF live])
next
  assume live: "liveModeRef (wScreen w)"
  show "recordings (wScreen (handleStop_old ops env w)) =
          \<lparr> itemTranscript =
              (if fst (stopLiveRecognition (wGateway w) (envLiveDraw env)) = []
               then ''(no speech detected)''
               else fst (stopLiveRecognition (wGateway w) (envLiveDraw env))),
            itemUri = [], itemTimestamp = envNow env, itemDurationSec = None \<rparr>
          # recordings (wScreen w)"
    by (simp add: handleStop_live(2) [OF live] handleStop_live(1) [OF live])
  show "clarifyPrompt (wScreen (handleStop_old ops env w)) = None"
    by (simp add: handleStop_live(2) [OF live] handleStop_live(1) [OF live])
  show "uiState (wScreen (handleStop_old ops env w)) = uiIdle"
    by (simp add: handleStop_live(2) [OF live] handleStop_live(1) [OF live])
  show "wCues (handleStop_old ops env w) = wCues w"
    if "uiScenario (wScreen w) \<noteq> success"
    using that by (simp add: handleStop_live(4) [OF live])
qed

lemma handleStop_ok_result_example:
  "recordings (wScreen (handleStop serviceB exampleEnv (listeningWorld success)))
     = [\<lparr> itemTranscript = ''Hey, remind me to call Alex tomorrow at 3 PM.'',
          itemUri = ''file:///cache/rec.m4a'', itemTimestamp = 1700000005000,
          itemDurationSec = Some 3 \<rparr>]
   \<and> uiState (wScreen (handleStop serviceB exampleEnv (listeningWorld success))) = uiIdle
   \<and> clarifyPrompt (wScreen (handleStop serviceB exampleEnv (listeningWorld success))) = None
   \<and> played (wCues (handleStop serviceB exampleEnv (listeningWorld success))) = [0]
   \<and> recordings (wScreen (handleStop_old serviceA exampleEnv followUpWorld))
     = [\<lparr> itemTranscript = FOLLOW_UP_TRANSCRIPT,
          itemUri = ''file:///cache/rec.m4a'', itemTimestamp = 1700000005000,
          itemDurationSec = Some 3 \<rparr>]
   \<and> uiState (wScreen (handleStop_old serviceA exampleEnv followUpWorld)) = uiIdle
   \<and> played (wCues (handleStop_old serviceA exampleEnv followUpWorld)) = []
   \<and> liveModeRef (wScreen (liveWorld clarify))
   \<and> uiState (wScreen (handleStop_old serviceA exampleEnv (liveWorld clarify))) = uiIdle
   \<and> played (wCues (handleStop_old serviceA exampleEnv (liveWorld clarify))) = []"
proof -
  let ?r = "\<lparr> resultUri = ''file:///cache/rec.m4a'', resultMimeType = ''audio/m4a'',
              resultDuration = Some 3400 \<rparr>"
  let ?w = "listeningWorld success"
  let ?t = "''Hey, remind me to call Alex tomorrow at 3 PM.''"
  have filemode: "\<not> liveModeRef (wScreen ?w)" "\<not> liveModeRef (wScreen followUpWorld)"
    by (simp_all add: listeningWorld_def followUpWorld_def)
  have stopB: "opStop serviceB (envStopNow exampleEnv) (wStorage ?w) (wCapture ?w)
      = (Inr ?r, \<lparr> recording = None, recordingStartTs = None \<rparr>)"
    by (simp add: serviceB_def listeningWorld_def stopRecording_B_def stopDefensively_resolves
        recordingService_def recordedHandle_def usableUri_def reportedDuration_def
        getInfoAsync_def storageWith_def RECORDING_MIME_def)
  have stopA: "opStop serviceA (envStopNow exampleEnv) (wStorage followUpWorld) (wCapture followUpWorld)
      = (Inr ?r, \<lparr> recording = None, recordingStartTs = Some 1000 \<rparr>)"
    by (simp add: serviceA_def listeningWorld_def followUpWorld_def stopRecording_A_def
        stopDefensively_resolves recordingService_def recordedHandle_def usableUri_def
        reportedDuration_def getInfoAsync_def storageWith_def RECORDING_MIME_def)
  have uri: "resultUri ?r \<noteq> []"
    by simp
  have pv: "fst (processVoice (wGateway ?w)
           \<lparr> audioUri = resultUri ?r, mimeType = resultMimeType ?r,
             clientTs = envClientTs exampleEnv, inputContext = requestContext (wScreen ?w) \<rparr>
           (envDraws exampleEnv)) = Inr (ok ?t)"
    by (simp add: listeningWorld_def exampleEnv_def setScenario_def voiceApi_def
        new_VoiceApiImpl_def processVoice_def processVoice_sync_def processVoice_resume_def
        pick_def MOCK_TRANSCRIPTS_def)
  have pv_old: "fst (processVoice (wGateway followUpWorld)
           \<lparr> audioUri = resultUri ?r, mimeType = resultMimeType ?r,
             clientTs = envClientTs exampleEnv,
             inputContext = requestContext_old (wScreen followUpWorld) \<rparr>
           (envDraws exampleEnv)) = Inr (ok FOLLOW_UP_TRANSCRIPT)"
    by (simp add: followUpWorld_def processVoice_armed)
  note both = handleStop_ok_result [where ops = serviceB and env = exampleEnv and w = ?w
      and r = ?r and a = "\<lparr> recording = None, recordingStartTs = None \<rparr>" and transcript = ?t]
  note both_old = handleStop_ok_result [where ops = serviceA and env = exampleEnv
      and w = followUpWorld and r = ?r
      and a = "\<lparr> recording = None, recordingStartTs = Some 1000 \<rparr>"
      and transcript = FOLLOW_UP_TRANSCRIPT]
  have new: "recordings (wScreen (handleStop serviceB exampleEnv ?w)) =
          \<lparr> itemTranscript = ?t, itemUri = resultUri ?r, itemTimestamp = envNow exampleEnv,
            itemDurationSec = map_option roundSeconds (resultDuration ?r) \<rparr>
          # recordings (wScreen ?w)
      \<and> clarifyPrompt (wScreen (handleStop serviceB exampleEnv ?w)) = None
      \<and> uiState (wScreen (handleStop serviceB exampleEnv ?w)) = uiIdle
      \<and> (uiScenario (wScreen ?w) = success
           \<longrightarrow> wCues (handleStop serviceB exampleEnv ?w) = playNextSuccessSound (wCues ?w))"
    using both filemode(1) stopB uri pv by blast
  have old: "recordings (wScreen (handleStop_old serviceA exampleEnv followUpWorld)) =
          \<lparr> itemTranscript = FOLLOW_UP_TRANSCRIPT, itemUri = resultUri ?r,
            itemTimestamp = envNow exampleEnv,
            itemDurationSec = map_option roundSeconds (resultDuration ?r) \<rparr>
          # recordings (wScreen followUpWorld)
      \<and> uiState (wScreen (handleStop_old serviceA exampleEnv followUpWorld)) = uiIdle
      \<and> (uiScenario (wScreen followUpWorld) \<noteq> success
           \<longrightarrow> wCues (handleStop_old serviceA exampleEnv followUpWorld) = wCues followUpWorld)"
    using both_old filemode(2) stopA pv_old by blast
  have scen: "uiScenario (wScreen ?w) = success" "uiScenario (wScreen followUpWorld) \<noteq> success"
    by (simp_all add: listeningWorld_def followUpWorld_def)
  have cue: "played (playNextSuccessSound (wCues ?w)) = [0]"
    by (simp add: listeningWorld_def playNextSuccessSound_def)
  have nocue: "played (wCues followUpWorld) = []"
    by (simp add: listeningWorld_def followUpWorld_def)
  have vals: "envNow exampleEnv = 1700000005000" "map_option roundSeconds (resultDuration ?r) = Some 3"
    "recordings (wScreen ?w) = []" "recordings (wScreen followUpWorld) = []"
    by (simp_all add: exampleEnv_def roundSeconds_def listeningWorld_def followUpWorld_def)
  have lw: "liveModeRef (wScreen (liveWorld clarify))"
    "uiScenario (wScreen (liveWorld clarify)) \<noteq> success"
    "played (wCues (liveWorld clarify)) = []"
    by (simp_all add: liveWorld_def listeningWorld_def)
  note live_old = handleStop_ok_result [where ops = serviceA and env = exampleEnv
      and w = "liveWorld clarify" and r = ?r
      and a = "\<lparr> recording = None, recordingStartTs = None \<rparr>" and transcript = ?t]
  have live: "uiState (wScreen (handleStop_old serviceA exampleEnv (liveWorld clarify))) = uiIdle
      \<and> wCues (handleStop_old serviceA exampleEnv (liveWorld clarify)) = wCues (liveWorld clarify)"
    using live_old lw(1,2) by blast
  show ?thesis
    using new old scen cue nocue vals live lw by simp
qed

text \<open>
  Claim C8 at a live recognition in scenario \<^verbatim>\<open>clarify\<close>. The claim is that the stop
  handler, given a successful result of the gateway, adds the transcript record to the
  history, clears the prompt, sets the state to idle, and plays the success cue only if
  the scenario is \<^verbatim>\<open>success\<close>. The first version of \<^verbatim>\<open>handleStop\<close> calls
  \<^verbatim>\<open>playNextSuccessSound\<close> at the head of its live branch, without testing the
  scenario: the transcript is recorded, the state becomes idle, and the first success
  sound has been played although the scenario is \<^verbatim>\<open>clarify\<close>. On the same world the
  second version, whose live branch tests the scenario, plays nothing.
\<close>

theorem stop_handler_live_cue_outside_success:
  "liveModeRef (wScreen (liveWorld clarify))
   \<and> uiScenario (wScreen (liveWorld clarify)) = clarify
   \<and> played (wCues (liveWorld clarify)) = []
   \<and> played (wCues (handleStop serviceB exampleEnv (liveWorld clarify))) = [0]
   \<and> recordings (wScreen (handleStop serviceB exampleEnv (liveWorld clarify)))
       = [\<lparr> itemTranscript = ''Hey, remind me to call Alex tomorrow at 3 PM.'',
            itemUri = [], itemTimestamp = 1700000005000, itemDurationSec = None \<rparr>]
   \<and> clarifyPrompt (wScreen (handleStop serviceB exampleEnv (liveWorld clarify))) = None
   \<and> uiState (wScreen (handleStop serviceB exampleEnv (liveWorld clarify))) = uiIdle
   \<and> played (wCues (handleStop_old serviceB exampleEnv (liveWorld clarify))) = []"
  by (simp add: handleStop_def handleStop_old_def Let_def liveWorld_def listeningWorld_def
      exampleEnv_def stopLiveRecognition_def pick_def LIVE_TRANSCRIPTS_def
      playNextSuccessSound_def)

text \<open>
  The second \<^verbatim>\<open>handleCancel\<close> sets the state to idle and leaves the prompt and the
  error message as they were.
\<close>

lemma handleCancel_old_keeps_messages:
  "uiState (wScreen (handleCancel_old ops env w)) = uiIdle
   \<and> clarifyPrompt (wScreen (handleCancel_old ops env w)) = clarifyPrompt (wScreen w)
   \<and> errorMessage (wScreen (handleCancel_old ops env w)) = errorMessage (wScreen w)"
  by (simp add: handleCancel_old_screen)

end
